theory Spec2Isabelle
  imports Main
begin

section \<open>JavaScript values of an API description\<close>

text \<open>
  The converter of \<^verbatim>\<open>swagger-to-har.js\<close> reads a parsed OpenAPI document: a tree of
  JavaScript values. An object is the list of its own properties in the order in which
  the engine enumerates them (\<^verbatim>\<open>for ... in\<close>, \<^verbatim>\<open>Object.keys\<close>); an array is the
  list of its elements. \<open>JUndef\<close> is \<^verbatim>\<open>undefined\<close>. \<open>JNative\<close> is an object that
  belongs to the runtime and not to the document, a built-in function such as
  \<^verbatim>\<open>Object.prototype.toString\<close> or a prototype object, known by a handle: a read
  reaches one through the prototype chain (\<^verbatim>\<open>doc["constructor"]\<close>).

  Numbers are integers (a document with fractions is not represented), and a string is
  a list of 8-bit characters.
\<close>

type_synonym handle = nat

datatype json =
    JUndef
  | JNull
  | JBool bool
  | JNum int
  | JStr string
  | JArr "json list"
  | JObj "(string \<times> json) list"
  | JNative handle

text \<open>What the code can throw: a read through \<^verbatim>\<open>undefined\<close> or \<^verbatim>\<open>null\<close>, a call of
  something that is not a function and a conversion of an object that has no usable
  \<^verbatim>\<open>toString\<close> are a \<open>TypeError\<close>; \<^verbatim>\<open>JSON.parse\<close> of a non-JSON text is a
  \<open>SyntaxError\<close>; \<open>InstantiatorError\<close> is whatever the external schema instantiator
  throws.\<close>

datatype error = TypeError | SyntaxError | InstantiatorError

definition bindE :: "error + 'a \<Rightarrow> ('a \<Rightarrow> error + 'b) \<Rightarrow> error + 'b" where
  "bindE m f = (case m of Inl e \<Rightarrow> Inl e | Inr v \<Rightarrow> f v)"

text \<open>The results of a list of computations, up to the first throw.\<close>

fun sequenceE :: "(error + 'a) list \<Rightarrow> error + 'a list" where
  "sequenceE [] = Inr []"
| "sequenceE (m # ms) =
     (case m of
        Inl e \<Rightarrow> Inl e
      | Inr v \<Rightarrow> (case sequenceE ms of Inl e \<Rightarrow> Inl e | Inr vs \<Rightarrow> Inr (v # vs)))"

subsection \<open>Strings\<close>

definition digitChar :: "nat \<Rightarrow> char" where
  "digitChar n = ''0123456789'' ! (n mod 10)"

fun showNat :: "nat \<Rightarrow> string" where
  "showNat n = (if n < 10 then [digitChar n] else showNat (n div 10) @ [digitChar n])"

declare showNat.simps [simp del]

definition showInt :: "int \<Rightarrow> string" where
  "showInt i = (if i < 0 then CHR ''-'' # showNat (nat (- i)) else showNat (nat i))"

definition upperChar :: "char \<Rightarrow> char" where
  "upperChar c =
     (case map_of (zip ''abcdefghijklmnopqrstuvwxyz'' ''ABCDEFGHIJKLMNOPQRSTUVWXYZ'') c of
        Some u \<Rightarrow> u | None \<Rightarrow> c)"

definition lowerChar :: "char \<Rightarrow> char" where
  "lowerChar c =
     (case map_of (zip ''ABCDEFGHIJKLMNOPQRSTUVWXYZ'' ''abcdefghijklmnopqrstuvwxyz'') c of
        Some l \<Rightarrow> l | None \<Rightarrow> c)"

text \<open>A string of the 128 ASCII characters: its case conversions change the letters
  a-z and A-Z and nothing else.\<close>

definition asciiOnly :: "string \<Rightarrow> bool" where
  "asciiOnly s = list_all (\<lambda>c. \<not> digit7 c) s"

fun joinWith :: "string \<Rightarrow> string list \<Rightarrow> string" where
  "joinWith sep [] = []"
| "joinWith sep [s] = s"
| "joinWith sep (s # t # ss) = s @ sep @ joinWith sep (t # ss)"

text \<open>\<^verbatim>\<open>s.split("/")\<close>: the pieces between the separators, always at least one.\<close>

fun splitSlash :: "string \<Rightarrow> string list" where
  "splitSlash [] = [[]]"
| "splitSlash (c # cs) =
     (if c = CHR ''/'' then [] # splitSlash cs
      else (case splitSlash cs of p # ps \<Rightarrow> (c # p) # ps | [] \<Rightarrow> [[c]]))"

text \<open>\<^verbatim>\<open>/^http/.test(s)\<close>\<close>

definition isHttp :: "string \<Rightarrow> bool" where
  "isHttp s = (take 4 s = ''http'')"

section \<open>The runtime\<close>

text \<open>
  What the converter takes from its surroundings.

  The collaborators: the external schema instantiator (\<^verbatim>\<open>schema-instantiator.js\<close>,
  which maps a schema to an example value or throws), \<^verbatim>\<open>JSON.stringify\<close> as applied to
  the instantiator's result, and the global variable \<^verbatim>\<open>values\<close> that \<^verbatim>\<open>getPathParams\<close>
  reads (\<open>JUndef\<close> while nothing has defined it).

  The prototype chain: \<open>inherited\<close> answers what a value that has no own property under
  a key finds there, by the kind of the value (\<open>MUndef\<close> when nothing is inherited under
  the key); for a built-in object it answers every read. An inherited member is a
  primitive value or a built-in object. Which members exist differs between versions
  of the language, so the table is a parameter. The members of the built-in prototypes
  are not enumerable, and loops do not visit them. A read does not throw, with one
  exception: \<^verbatim>\<open>caller\<close> and \<^verbatim>\<open>arguments\<close> are accessors of \<^verbatim>\<open>Function.prototype\<close> that
  throw a \<open>TypeError\<close> for the functions \<open>restricted\<close> names (the built-in ones).

  The built-in objects: their string form, what the JSON round trip makes of them
  (\<open>JUndef\<close> for a function, which has no JSON text), what a call of one as a method
  of a receiver, without arguments, returns, and, for the schema resolver, what
  \<^verbatim>\<open>/^http/.test(v)\<close> and then \<^verbatim>\<open>v.split("/").slice(-1)[0]\<close> make of one (\<open>None\<close>
  when the test holds).

  The parts of the standard library the model does not compute: the case conversions
  of a string with a character outside ASCII, the digits of a number of magnitude
  10^21 or more (the exponent notation), and the comparison \<^verbatim>\<open>s > 0\<close> for a string
  \<open>s\<close> (a floating-point conversion).
\<close>

datatype receiver = OfObject | OfArray | OfString | OfNumber | OfBoolean | OfNative handle

datatype member = MUndef | MNull | MBool bool | MNum int | MStr string | MNative handle

record host =
  instantiate :: "json \<Rightarrow> error + json"
  jsonStringify :: "json \<Rightarrow> json"
  globalValues :: json
  inherited :: "receiver \<Rightarrow> string \<Rightarrow> member"
  restricted :: "handle \<Rightarrow> bool"
  nativeString :: "handle \<Rightarrow> error + string"
  nativeJson :: "handle \<Rightarrow> error + json"
  callNative :: "handle \<Rightarrow> json \<Rightarrow> error + json"
  nativeSegment :: "handle \<Rightarrow> error + string option"
  upperCase :: "string \<Rightarrow> string"
  lowerCase :: "string \<Rightarrow> string"
  numberString :: "int \<Rightarrow> string"
  stringGtZero :: "string \<Rightarrow> bool"

fun jsonOf :: "member \<Rightarrow> json" where
  "jsonOf MUndef = JUndef"
| "jsonOf MNull = JNull"
| "jsonOf (MBool b) = JBool b"
| "jsonOf (MNum n) = JNum n"
| "jsonOf (MStr s) = JStr s"
| "jsonOf (MNative x) = JNative x"

definition inheritedProp :: "host \<Rightarrow> receiver \<Rightarrow> string \<Rightarrow> error + json" where
  "inheritedProp h r k = Inr (jsonOf (inherited h r k))"

definition nativeProp :: "host \<Rightarrow> handle \<Rightarrow> string \<Rightarrow> error + json" where
  "nativeProp h x k =
     (if (k = ''caller'' \<or> k = ''arguments'') \<and> restricted h x then Inl TypeError
      else inheritedProp h (OfNative x) k)"

subsection \<open>Property reads\<close>

text \<open>\<^verbatim>\<open>obj[key]\<close> for a string key: the own property when there is one, else what the
  prototype chain has. An array and a string answer their indices and \<^verbatim>\<open>length\<close>
  themselves.\<close>

definition indexOfKey :: "nat \<Rightarrow> string \<Rightarrow> nat option" where
  "indexOfKey n k = find (\<lambda>i. showNat i = k) [0..<n]"

fun getProp :: "host \<Rightarrow> json \<Rightarrow> string \<Rightarrow> error + json" where
  "getProp h JUndef k = Inl TypeError"
| "getProp h JNull k = Inl TypeError"
| "getProp h (JObj kvs) k =
     (case map_of kvs k of Some v \<Rightarrow> Inr v | None \<Rightarrow> inheritedProp h OfObject k)"
| "getProp h (JArr xs) k =
     (if k = ''length'' then Inr (JNum (int (length xs)))
      else (case indexOfKey (length xs) k of
              Some i \<Rightarrow> Inr (xs ! i)
            | None \<Rightarrow> inheritedProp h OfArray k))"
| "getProp h (JStr s) k =
     (if k = ''length'' then Inr (JNum (int (length s)))
      else (case indexOfKey (length s) k of
              Some i \<Rightarrow> Inr (JStr [s ! i])
            | None \<Rightarrow> inheritedProp h OfString k))"
| "getProp h (JBool b) k = inheritedProp h OfBoolean k"
| "getProp h (JNum n) k = inheritedProp h OfNumber k"
| "getProp h (JNative x) k = nativeProp h x k"

text \<open>The keys a \<^verbatim>\<open>for ... in\<close> loop visits; \<^verbatim>\<open>Object.keys\<close> lists the same keys but
  throws on \<^verbatim>\<open>undefined\<close> and \<^verbatim>\<open>null\<close>.\<close>

fun forInKeys :: "json \<Rightarrow> string list" where
  "forInKeys (JObj kvs) = map fst kvs"
| "forInKeys (JArr xs) = map showNat [0..<length xs]"
| "forInKeys (JStr s) = map showNat [0..<length s]"
| "forInKeys v = []"

definition objectKeys :: "json \<Rightarrow> error + string list" where
  "objectKeys v = (if v = JUndef \<or> v = JNull then Inl TypeError else Inr (forInKeys v))"

subsection \<open>Conversions\<close>

fun truthy :: "json \<Rightarrow> bool" where
  "truthy JUndef = False"
| "truthy JNull = False"
| "truthy (JBool b) = b"
| "truthy (JNum n) = (n \<noteq> 0)"
| "truthy (JStr s) = (s \<noteq> [])"
| "truthy (JArr xs) = True"
| "truthy (JObj kvs) = True"
| "truthy (JNative x) = True"

fun isObject :: "json \<Rightarrow> bool" where
  "isObject (JArr xs) = True"
| "isObject (JObj kvs) = True"
| "isObject (JNative x) = True"
| "isObject v = False"

text \<open>The string form of a primitive value.\<close>

fun primitiveString :: "host \<Rightarrow> json \<Rightarrow> string" where
  "primitiveString h JUndef = ''undefined''"
| "primitiveString h JNull = ''null''"
| "primitiveString h (JBool b) = (if b then ''true'' else ''false'')"
| "primitiveString h (JNum n) =
     (if \<bar>n\<bar> < 10 ^ 21 then showInt n else numberString h n)"
| "primitiveString h (JStr s) = s"
| "primitiveString h v = []"

text \<open>
  The conversion of an object of the document to a primitive value: the methods
  \<^verbatim>\<open>valueOf\<close> and \<^verbatim>\<open>toString\<close> are tried in the order the operation asks for. An own
  property under one of the two names hides the inherited method: a built-in function
  stored there is called, anything else is not callable and is passed over. The
  inherited \<^verbatim>\<open>valueOf\<close> returns the object itself, which is passed over too, and the
  inherited \<^verbatim>\<open>toString\<close> returns "[object Object]". When no method yields a primitive
  value the conversion throws.
\<close>

fun viaMethods :: "host \<Rightarrow> json \<Rightarrow> (string \<times> json) list \<Rightarrow> string list \<Rightarrow> error + json" where
  "viaMethods h v kvs [] = Inl TypeError"
| "viaMethods h v kvs (m # ms) =
     (case map_of kvs m of
        Some (JNative g) \<Rightarrow>
          (case callNative h g v of
             Inl e \<Rightarrow> Inl e
           | Inr r \<Rightarrow> if isObject r then viaMethods h v kvs ms else Inr r)
      | Some _ \<Rightarrow> viaMethods h v kvs ms
      | None \<Rightarrow>
          if m = ''toString'' then Inr (JStr ''[object Object]'')
          else viaMethods h v kvs ms)"

text \<open>The string form of a value, with the order of the two methods as a parameter. An
  array joins the string forms of its elements, where \<^verbatim>\<open>undefined\<close> and \<^verbatim>\<open>null\<close>
  count as empty.\<close>

fun stringOf :: "host \<Rightarrow> string list \<Rightarrow> json \<Rightarrow> error + string" where
  "stringOf h ms (JArr xs) =
     (case sequenceE (map (\<lambda>x. if x = JUndef \<or> x = JNull then Inr []
                                 else stringOf h [''toString'', ''valueOf''] x) xs) of
        Inl e \<Rightarrow> Inl e
      | Inr ss \<Rightarrow> Inr (joinWith '','' ss))"
| "stringOf h ms (JObj kvs) =
     (case viaMethods h (JObj kvs) kvs ms of
        Inl e \<Rightarrow> Inl e
      | Inr r \<Rightarrow> Inr (primitiveString h r))"
| "stringOf h ms (JNative x) = nativeString h x"
| "stringOf h ms v = Inr (primitiveString h v)"

text \<open>\<^verbatim>\<open>x + ""\<close> and the other concatenations with a string.\<close>

definition toStr :: "host \<Rightarrow> json \<Rightarrow> error + string" where
  "toStr h v = stringOf h [''valueOf'', ''toString''] v"

text \<open>The conversion of a value that is used as a property key.\<close>

definition toKey :: "host \<Rightarrow> json \<Rightarrow> error + string" where
  "toKey h v = stringOf h [''toString'', ''valueOf''] v"

text \<open>\<^verbatim>\<open>v[key]\<close> for a key that is a value.\<close>

definition getPropAt :: "host \<Rightarrow> json \<Rightarrow> json \<Rightarrow> error + json" where
  "getPropAt h v key = bindE (toKey h key) (\<lambda>k. getProp h v k)"

text \<open>\<^verbatim>\<open>len > 0\<close>: the value is made primitive; \<^verbatim>\<open>true\<close> counts as 1, \<^verbatim>\<open>null\<close> as 0,
  \<^verbatim>\<open>undefined\<close> as not a number, and a string is converted by the host.\<close>

definition toPrimitive :: "host \<Rightarrow> json \<Rightarrow> error + json" where
  "toPrimitive h v =
     (case v of
        JObj kvs \<Rightarrow> viaMethods h v kvs [''valueOf'', ''toString'']
      | JArr xs \<Rightarrow> bindE (toStr h v) (\<lambda>s. Inr (JStr s))
      | JNative x \<Rightarrow> bindE (nativeString h x) (\<lambda>s. Inr (JStr s))
      | _ \<Rightarrow> Inr v)"

definition gtZero :: "host \<Rightarrow> json \<Rightarrow> error + bool" where
  "gtZero h v =
     bindE (toPrimitive h v) (\<lambda>p.
       Inr (case p of
              JNum n \<Rightarrow> 0 < n
            | JBool b \<Rightarrow> b
            | JStr s \<Rightarrow> stringGtZero h s
            | _ \<Rightarrow> False))"

text \<open>\<^verbatim>\<open>v.toUpperCase()\<close> and \<^verbatim>\<open>v.toLowerCase()\<close>. A string has the two methods of the
  standard library. On any other value the method is looked up like a property and
  called when it is a built-in function.\<close>

definition upperString :: "host \<Rightarrow> string \<Rightarrow> string" where
  "upperString h s = (if asciiOnly s then map upperChar s else upperCase h s)"

definition lowerString :: "host \<Rightarrow> string \<Rightarrow> string" where
  "lowerString h s = (if asciiOnly s then map lowerChar s else lowerCase h s)"

definition invoke :: "host \<Rightarrow> json \<Rightarrow> string \<Rightarrow> error + json" where
  "invoke h v name =
     bindE (getProp h v name) (\<lambda>m.
       case m of JNative g \<Rightarrow> callNative h g v | _ \<Rightarrow> Inl TypeError)"

definition toUpperCase :: "host \<Rightarrow> json \<Rightarrow> error + json" where
  "toUpperCase h v =
     (case v of JStr s \<Rightarrow> Inr (JStr (upperString h s)) | _ \<Rightarrow> invoke h v ''toUpperCase'')"

definition toLowerCase :: "host \<Rightarrow> json \<Rightarrow> error + json" where
  "toLowerCase h v =
     (case v of JStr s \<Rightarrow> Inr (JStr (lowerString h s)) | _ \<Rightarrow> invoke h v ''toLowerCase'')"

text \<open>\<^verbatim>\<open>"SOME_" + x + "_VALUE"\<close>\<close>

definition placeholder :: "host \<Rightarrow> json \<Rightarrow> error + json" where
  "placeholder h x = bindE (toStr h x) (\<lambda>s. Inr (JStr (''SOME_'' @ s @ ''_VALUE'')))"

text \<open>A loop that pushes entries onto a result list and stops at the first throw.\<close>

fun collectE :: "('a \<Rightarrow> error + 'b list) \<Rightarrow> 'a list \<Rightarrow> error + 'b list" where
  "collectE f [] = Inr []"
| "collectE f (x # xs) =
     (case f x of
        Inl e \<Rightarrow> Inl e
      | Inr ys \<Rightarrow> (case collectE f xs of Inl e \<Rightarrow> Inl e | Inr zs \<Rightarrow> Inr (ys @ zs)))"


section \<open>The Reference Resolver\<close>

text \<open>\<^verbatim>\<open>parts[index]\<close>, which is \<^verbatim>\<open>undefined\<close> (the key "undefined") out of range.\<close>

definition partAt :: "string list \<Rightarrow> nat \<Rightarrow> string" where
  "partAt parts i = (if i < length parts then parts ! i else ''undefined'')"

function recursive :: "host \<Rightarrow> string list \<Rightarrow> json \<Rightarrow> nat \<Rightarrow> error + json" where
  "recursive h parts obj index =
     (if index + 1 < length parts
      then (case getProp h obj (partAt parts index) of
              Inl e \<Rightarrow> Inl e
            | Inr next_obj \<Rightarrow> recursive h parts next_obj (index + 1))
      else getProp h obj (partAt parts index))"
  by pat_completeness auto
termination
  by (relation "measure (\<lambda>(h, parts, obj, index). length parts - index)") auto

declare recursive.simps [simp del]

definition resolveRef :: "host \<Rightarrow> json \<Rightarrow> string \<Rightarrow> error + json" where
  "resolveRef h oai ref =
     (let parts = splitSlash ref
      in if length parts \<le> 1 then Inr (JObj []) else recursive h parts oai 1)"

section \<open>The converter\<close>

text \<open>\<^verbatim>\<open>swagger.paths[path][method]\<close>\<close>

definition operationOf :: "host \<Rightarrow> json \<Rightarrow> string \<Rightarrow> string \<Rightarrow> error + json" where
  "operationOf h swagger path method =
     bindE (getProp h swagger ''paths'') (\<lambda>paths.
     bindE (getProp h paths path) (\<lambda>pathItem. getProp h pathItem method))"

text \<open>The first three lines of the loop bodies of \<^verbatim>\<open>getQueryStrings\<close> and
  \<^verbatim>\<open>getPathParams\<close>: a parameter whose \<^verbatim>\<open>$ref\<close> is a string that does not start with
  \<^verbatim>\<open>http\<close> is replaced by what \<^verbatim>\<open>resolveRef\<close> finds.\<close>

definition derefParam :: "host \<Rightarrow> json \<Rightarrow> json \<Rightarrow> error + json" where
  "derefParam h swagger param =
     bindE (getProp h param ''$ref'') (\<lambda>r.
       case r of
         JStr s \<Rightarrow> if \<not> isHttp s then resolveRef h swagger s else Inr param
       | _ \<Rightarrow> Inr param)"

text \<open>\<^verbatim>\<open>typeof param.in !== "undefined" && param.in.toLowerCase() === loc\<close>\<close>

definition paramIn :: "host \<Rightarrow> string \<Rightarrow> json \<Rightarrow> error + bool" where
  "paramIn h loc param =
     bindE (getProp h param ''in'') (\<lambda>i.
       if i = JUndef then Inr False
       else bindE (toLowerCase h i) (\<lambda>l. Inr (l = JStr loc)))"

text \<open>\<^verbatim>\<open>param.in ? param.schema.type : param.type\<close>\<close>

definition paramType :: "host \<Rightarrow> json \<Rightarrow> error + json" where
  "paramType h param =
     bindE (getProp h param ''in'') (\<lambda>i.
       if truthy i then bindE (getProp h param ''schema'') (\<lambda>s. getProp h s ''type'')
       else getProp h param ''type'')"

text \<open>\<^verbatim>\<open>typeof values[param.name] === "undefined" ? (typeof param.default === "undefined"
  ? "SOME_" + type.toUpperCase() + "_VALUE" : param.default + "") : values[param.name] + ""\<close>\<close>

definition valueOrDefault :: "host \<Rightarrow> json \<Rightarrow> json \<Rightarrow> json \<Rightarrow> error + json" where
  "valueOrDefault h vals param type =
     bindE (getProp h param ''name'') (\<lambda>name.
     bindE (getPropAt h vals name) (\<lambda>v.
       if v = JUndef
       then bindE (getProp h param ''default'') (\<lambda>d.
              if d = JUndef
              then bindE (toUpperCase h type) (placeholder h)
              else bindE (toStr h d) (\<lambda>s. Inr (JStr s)))
       else bindE (toStr h v) (\<lambda>s. Inr (JStr s))))"

subsection \<open>Query strings\<close>

text \<open>The body of the loop of \<^verbatim>\<open>getQueryStrings\<close> for one declared parameter: the entries
  it pushes. \<open>exampleVal\<close> is \<^verbatim>\<open>typeof param.schema && param.schema.example !== 'undefined'
  ? param.schema.example + "" : undefined\<close>, where \<^verbatim>\<open>typeof\<close> binds tighter than
  \<^verbatim>\<open>&&\<close> and yields a non-empty string.\<close>

definition queryExampleVal :: "host \<Rightarrow> json \<Rightarrow> error + json" where
  "queryExampleVal h param =
     bindE (getProp h param ''schema'') (\<lambda>schema.
     bindE (getProp h schema ''example'') (\<lambda>ex.
       if ex \<noteq> JStr ''undefined'' then bindE (toStr h ex) (\<lambda>s. Inr (JStr s))
       else Inr JUndef))"

definition queryStringOf :: "host \<Rightarrow> json \<Rightarrow> json \<Rightarrow> json \<Rightarrow> error + json list" where
  "queryStringOf h swagger vals param0 =
     bindE (derefParam h swagger param0) (\<lambda>param.
     bindE (paramIn h ''query'' param) (\<lambda>isQuery.
       if isQuery
       then bindE (paramType h param) (\<lambda>type.
            bindE (queryExampleVal h param) (\<lambda>exampleVal.
            bindE (getProp h param ''name'') (\<lambda>name.
            bindE (if truthy exampleVal then Inr exampleVal
                   else valueOrDefault h vals param type) (\<lambda>v.
              Inr [JObj [(''name'', name), (''value'', v)]]))))
       else Inr []))"

definition getQueryStrings :: "host \<Rightarrow> json \<Rightarrow> string \<Rightarrow> string \<Rightarrow> json \<Rightarrow> error + json" where
  "getQueryStrings h swagger path method vals0 =
     (let vals = (if vals0 = JUndef then JObj [] else vals0)
      in bindE (operationOf h swagger path method) (\<lambda>operation.
         bindE (getProp h operation ''parameters'') (\<lambda>params.
           if params \<noteq> JUndef
           then bindE (collectE (\<lambda>i. bindE (getProp h params i) (queryStringOf h swagger vals))
                        (forInKeys params)) (\<lambda>queryStrings. Inr (JArr queryStrings))
           else Inr (JArr []))))"

subsection \<open>Path parameters\<close>

text \<open>\<^verbatim>\<open>getPathParams\<close> has no parameter \<^verbatim>\<open>values\<close>: the name is the global variable,
  which the function sets to an empty object when it is not defined.\<close>

definition pathParamOf :: "host \<Rightarrow> json \<Rightarrow> json \<Rightarrow> json \<Rightarrow> error + json list" where
  "pathParamOf h swagger vals param0 =
     bindE (derefParam h swagger param0) (\<lambda>param.
     bindE (paramIn h ''path'' param) (\<lambda>isPath.
       if isPath
       then bindE (paramType h param) (\<lambda>type.
            bindE (getProp h param ''example'') (\<lambda>ex.
            bindE (if truthy ex then Inr ex else valueOrDefault h vals param type) (\<lambda>v.
            bindE (getProp h param ''name'') (\<lambda>name.
            bindE (getProp h param ''schema'') (\<lambda>schema.
            bindE (getProp h schema ''type'') (\<lambda>t.
              Inr [JObj [(''name'', name), (''value'', v), (''type'', t)]]))))))
       else Inr []))"

definition pathValues :: "host \<Rightarrow> json" where
  "pathValues h = (if globalValues h = JUndef then JObj [] else globalValues h)"

definition getPathParams :: "host \<Rightarrow> json \<Rightarrow> string \<Rightarrow> string \<Rightarrow> error + json" where
  "getPathParams h swagger path method =
     bindE (operationOf h swagger path method) (\<lambda>operation.
     bindE (getProp h operation ''parameters'') (\<lambda>params.
       if params \<noteq> JUndef
       then bindE (collectE (\<lambda>i. bindE (getProp h params i) (pathParamOf h swagger (pathValues h)))
                    (forInKeys params)) (\<lambda>pathParams. Inr (JArr pathParams))
       else Inr (JArr [])))"

subsection \<open>Headers\<close>

text \<open>\<^verbatim>\<open>Object.keys(contentObj)[0]\<close>\<close>

definition getFirstContentTypeFromContent :: "json \<Rightarrow> error + json" where
  "getFirstContentTypeFromContent contentObj =
     bindE (objectKeys contentObj) (\<lambda>ks.
       Inr (case ks of [] \<Rightarrow> JUndef | k # _ \<Rightarrow> JStr k))"

text \<open>\<^verbatim>\<open>typeof param.in !== "undefined" && param.in.toLowerCase() === "header" &&
  param.required\<close>\<close>

definition requiredHeader :: "host \<Rightarrow> json \<Rightarrow> error + bool" where
  "requiredHeader h param =
     bindE (paramIn h ''header'' param) (\<lambda>isHeader.
       if isHeader then bindE (getProp h param ''required'') (\<lambda>r. Inr (truthy r))
       else Inr False)"

text \<open>The entry both header functions push for a header that is not the authorised one:
  \<^verbatim>\<open>param.example ? param.example : "SOME_" + param.name.toUpperCase() + "_VALUE"\<close> is
  its value.\<close>

definition plainHeader :: "host \<Rightarrow> json \<Rightarrow> error + json list" where
  "plainHeader h param =
     bindE (getProp h param ''name'') (\<lambda>name.
     bindE (getProp h param ''example'') (\<lambda>ex.
     bindE (if truthy ex then Inr ex
            else bindE (toUpperCase h name) (placeholder h)) (\<lambda>v.
     bindE (getProp h param ''schema'') (\<lambda>schema.
     bindE (getProp h schema ''type'') (\<lambda>t.
       Inr [JObj [(''name'', name), (''value'', v), (''type'', t)]])))))"

definition authHeader :: "host \<Rightarrow> json \<Rightarrow> json \<Rightarrow> error + json list" where
  "authHeader h param v =
     bindE (getProp h param ''name'') (\<lambda>name.
     bindE (getProp h param ''schema'') (\<lambda>schema.
     bindE (getProp h schema ''type'') (\<lambda>t.
       Inr [JObj [(''name'', name), (''value'', v), (''type'', t)]])))"

definition headerOf :: "host \<Rightarrow> json \<Rightarrow> json \<Rightarrow> error + json list" where
  "headerOf h apiKey param =
     bindE (requiredHeader h param) (\<lambda>req.
       if req
       then bindE (getProp h param ''name'') (\<lambda>name.
              if name = JStr ''Authorization'' \<and> truthy apiKey
              then bindE (toStr h apiKey) (\<lambda>s. authHeader h param (JStr (''Bearer '' @ s)))
              else plainHeader h param)
       else Inr [])"

definition headerContentType :: "host \<Rightarrow> json \<Rightarrow> error + json" where
  "headerContentType h pathObj =
     (if truthy pathObj
      then bindE (getProp h pathObj ''requestBody'') (\<lambda>rb.
             if truthy rb
             then bindE (getProp h rb ''content'') (\<lambda>c.
                    if truthy c then getFirstContentTypeFromContent c
                    else Inr (JStr ''application/json''))
             else Inr (JStr ''application/json''))
      else Inr (JStr ''application/json''))"

definition getHeadersArray :: "host \<Rightarrow> json \<Rightarrow> string \<Rightarrow> string \<Rightarrow> json \<Rightarrow> error + json" where
  "getHeadersArray h swagger path method apiKey =
     bindE (operationOf h swagger path method) (\<lambda>pathObj.
     bindE (headerContentType h pathObj) (\<lambda>contentType.
     bindE (getProp h pathObj ''parameters'') (\<lambda>params.
     bindE (if params \<noteq> JUndef
            then collectE (\<lambda>k. bindE (getProp h params k) (headerOf h apiKey)) (forInKeys params)
            else Inr []) (\<lambda>declared.
       Inr (JArr ([JObj [(''name'', JStr ''accept''), (''value'', contentType)],
                   JObj [(''name'', JStr ''content-type''), (''value'', contentType)]]
                  @ declared))))))"

definition requiredHeaderParamOf :: "host \<Rightarrow> json \<Rightarrow> json \<Rightarrow> error + json list" where
  "requiredHeaderParamOf h apiKey param =
     bindE (requiredHeader h param) (\<lambda>req.
       if req
       then bindE (getProp h param ''name'') (\<lambda>name.
              if name = JStr ''Authorization'' \<and> truthy apiKey
              then authHeader h param apiKey
              else plainHeader h param)
       else Inr [])"

definition getRequiredHeaderParams :: "host \<Rightarrow> json \<Rightarrow> string \<Rightarrow> string \<Rightarrow> json \<Rightarrow> error + json" where
  "getRequiredHeaderParams h swagger path method apiKey =
     bindE (operationOf h swagger path method) (\<lambda>pathObj.
     bindE (getProp h pathObj ''parameters'') (\<lambda>params.
     bindE (if params \<noteq> JUndef
            then collectE (\<lambda>k. bindE (getProp h params k) (requiredHeaderParamOf h apiKey))
                   (forInKeys params)
            else Inr []) (\<lambda>headers. Inr (JArr headers))))"

subsection \<open>Payload, base URL and the request object\<close>

definition getPayload :: "host \<Rightarrow> json \<Rightarrow> string \<Rightarrow> string \<Rightarrow> error + json" where
  "getPayload h swagger path method =
     bindE (operationOf h swagger path method) (\<lambda>operation.
     bindE (getProp h operation ''requestBody'') (\<lambda>requestBody.
       if requestBody \<noteq> JUndef
       then bindE (getProp h requestBody ''content'') (\<lambda>content.
              if content \<noteq> JUndef
              then bindE (getFirstContentTypeFromContent content) (\<lambda>contentType.
                     if contentType \<noteq> JUndef
                     then bindE (getPropAt h content contentType) (\<lambda>media.
                          bindE (getProp h media ''schema'') (\<lambda>schema.
                          bindE (instantiate h schema) (\<lambda>example.
                            Inr (JObj [(''mimeType'', contentType),
                                       (''text'', jsonStringify h example)]))))
                     else Inr JNull)
              else Inr JNull)
       else Inr JNull))"

definition getBaseUrl :: "host \<Rightarrow> json \<Rightarrow> error + json" where
  "getBaseUrl h swagger =
     bindE (getProp h swagger ''servers'') (\<lambda>servers.
       if truthy servers
       then bindE (getProp h servers ''length'') (\<lambda>len.
            bindE (gtZero h len) (\<lambda>positive.
              if positive
              then bindE (getProp h servers ''0'') (\<lambda>server. getProp h server ''url'')
              else Inr JUndef))
       else Inr JUndef)"

text \<open>\<^verbatim>\<open>JSON.parse(JSON.stringify(v))\<close>: a copy without the properties that have no
  JSON text (\<^verbatim>\<open>undefined\<close> and functions); such an array element becomes \<^verbatim>\<open>null\<close>,
  and a value that has no JSON text itself leaves nothing to parse.\<close>

fun copyOf :: "host \<Rightarrow> json \<Rightarrow> error + json" where
  "copyOf h (JArr xs) =
     (case sequenceE (map (copyOf h) xs) of
        Inl e \<Rightarrow> Inl e
      | Inr ys \<Rightarrow> Inr (JArr (map (\<lambda>y. if y = JUndef then JNull else y) ys)))"
| "copyOf h (JObj kvs) =
     (case sequenceE (map (\<lambda>kv. case copyOf h (snd kv) of
                                   Inl e \<Rightarrow> Inl e
                                 | Inr y \<Rightarrow> Inr (fst kv, y)) kvs) of
        Inl e \<Rightarrow> Inl e
      | Inr kys \<Rightarrow> Inr (JObj (filter (\<lambda>ky. snd ky \<noteq> JUndef) kys)))"
| "copyOf h (JNative x) = nativeJson h x"
| "copyOf h v = Inr v"

definition jsonCopy :: "host \<Rightarrow> json \<Rightarrow> error + json" where
  "jsonCopy h v = bindE (copyOf h v) (\<lambda>c. if c = JUndef then Inl SyntaxError else Inr c)"

definition createHar ::
  "host \<Rightarrow> json \<Rightarrow> string \<Rightarrow> string \<Rightarrow> json \<Rightarrow> json \<Rightarrow> error + json" where
  "createHar h swagger path method queryParamValues0 apiKey =
     (let queryParamValues = (if queryParamValues0 = JUndef then JObj [] else queryParamValues0)
      in bindE (getBaseUrl h swagger) (\<lambda>baseUrl.
         bindE (toStr h baseUrl) (\<lambda>base.
         bindE (getHeadersArray h swagger path method apiKey) (\<lambda>headers.
         bindE (getQueryStrings h swagger path method queryParamValues) (\<lambda>queryString.
         bindE (operationOf h swagger path method) (\<lambda>operation.
         bindE (jsonCopy h operation) (\<lambda>originalMethod.
         bindE (getPathParams h swagger path method) (\<lambda>pathParams.
         bindE (getRequiredHeaderParams h swagger path method apiKey) (\<lambda>requiredHeaderParams.
         bindE (getPayload h swagger path method) (\<lambda>postData.
           Inr (JObj ([(''method'', JStr (upperString h method)),
                       (''url'', JStr (base @ path)),
                       (''headers'', headers),
                       (''queryString'', queryString),
                       (''httpVersion'', JStr ''HTTP/1.1''),
                       (''cookies'', JArr []),
                       (''headersSize'', JNum 0),
                       (''bodySize'', JNum 0),
                       (''_swaggerSettings'',
                          JObj [(''originalMethod'', originalMethod),
                                (''path'', JStr path),
                                (''pathParams'', pathParams),
                                (''requiredHeaderParams'', requiredHeaderParams)])]
                      @ (if truthy postData then [(''postData'', postData)] else [])))))))))))))"

subsection \<open>Batch conversion\<close>

definition harEntry :: "host \<Rightarrow> json \<Rightarrow> json \<Rightarrow> string \<Rightarrow> string \<Rightarrow> error + json list" where
  "harEntry h swagger baseUrl path method =
     bindE (toStr h baseUrl) (\<lambda>base.
     bindE (createHar h swagger path method JUndef JUndef) (\<lambda>har.
     bindE (operationOf h swagger path method) (\<lambda>operation.
     bindE (getProp h operation ''description'') (\<lambda>description.
       Inr [JObj [(''method'', JStr (upperString h method)),
                  (''url'', JStr (base @ path)),
                  (''description'',
                     if truthy description then description
                     else JStr ''No description available''),
                  (''har'', har)]]))))"

text \<open>The body of the \<^verbatim>\<open>try\<close> block.\<close>

definition harList :: "host \<Rightarrow> json \<Rightarrow> error + json list" where
  "harList h swagger =
     bindE (getBaseUrl h swagger) (\<lambda>baseUrl.
     bindE (getProp h swagger ''paths'') (\<lambda>paths.
       collectE (\<lambda>path.
           bindE (getProp h paths path) (\<lambda>pathItem.
             collectE (harEntry h swagger baseUrl path) (forInKeys pathItem)))
         (forInKeys paths)))"

text \<open>\<^verbatim>\<open>try { ... return harList; } catch (e) { return null; }\<close>\<close>

definition swaggerToHarList :: "host \<Rightarrow> json \<Rightarrow> json" where
  "swaggerToHarList h swagger =
     (case harList h swagger of Inl e \<Rightarrow> JNull | Inr entries \<Rightarrow> JArr entries)"


section \<open>The Schema Resolver\<close>

text \<open>
  \<^verbatim>\<open>getResolvedSchema\<close> assigns to properties of the schema it is given and puts the
  very objects of \<^verbatim>\<open>swagger.definitions\<close> into it, so one definition can be reached
  from several places and a later assignment inside it is seen from all of them. The
  model therefore keeps the objects in a store: a value is a primitive, a built-in
  object or the address of an object of the document, and the store maps an address to
  the object's own properties in enumeration order. The store holds objects only: a
  document with an array in it is not represented here.
\<close>

type_synonym addr = nat

datatype hval = HUndef | HNull | HBool bool | HNum int | HStr string | HRef addr | HNative handle

type_synonym heap = "addr \<Rightarrow> (string \<times> hval) list"

fun hvalOf :: "member \<Rightarrow> hval" where
  "hvalOf MUndef = HUndef"
| "hvalOf MNull = HNull"
| "hvalOf (MBool b) = HBool b"
| "hvalOf (MNum n) = HNum n"
| "hvalOf (MStr s) = HStr s"
| "hvalOf (MNative x) = HNative x"

definition inheritedVal :: "host \<Rightarrow> receiver \<Rightarrow> string \<Rightarrow> error + hval" where
  "inheritedVal h r k = Inr (hvalOf (inherited h r k))"

definition nativeVal :: "host \<Rightarrow> handle \<Rightarrow> string \<Rightarrow> error + hval" where
  "nativeVal h x k =
     (if (k = ''caller'' \<or> k = ''arguments'') \<and> restricted h x then Inl TypeError
      else inheritedVal h (OfNative x) k)"

text \<open>The own property of an object under a key, \<^verbatim>\<open>undefined\<close> when it has none.\<close>

definition fieldOf :: "(string \<times> hval) list \<Rightarrow> string \<Rightarrow> hval" where
  "fieldOf ob k = (case map_of ob k of Some v \<Rightarrow> v | None \<Rightarrow> HUndef)"

text \<open>\<^verbatim>\<open>v[k]\<close> in a store.\<close>

fun hgetProp :: "host \<Rightarrow> heap \<Rightarrow> hval \<Rightarrow> string \<Rightarrow> error + hval" where
  "hgetProp h st HUndef k = Inl TypeError"
| "hgetProp h st HNull k = Inl TypeError"
| "hgetProp h st (HRef a) k =
     (case map_of (st a) k of Some v \<Rightarrow> Inr v | None \<Rightarrow> inheritedVal h OfObject k)"
| "hgetProp h st (HStr s) k =
     (if k = ''length'' then Inr (HNum (int (length s)))
      else (case indexOfKey (length s) k of
              Some i \<Rightarrow> Inr (HStr [s ! i])
            | None \<Rightarrow> inheritedVal h OfString k))"
| "hgetProp h st (HBool b) k = inheritedVal h OfBoolean k"
| "hgetProp h st (HNum n) k = inheritedVal h OfNumber k"
| "hgetProp h st (HNative x) k = nativeVal h x k"

fun hforInKeys :: "heap \<Rightarrow> hval \<Rightarrow> string list" where
  "hforInKeys st (HRef a) = map fst (st a)"
| "hforInKeys st (HStr s) = map showNat [0..<length s]"
| "hforInKeys st v = []"

text \<open>\<^verbatim>\<open>v[k] = x\<close>: the property is replaced where it stands, or added last. An
  assignment to a property of a primitive is ignored (the file is not in strict
  mode). A built-in object is not assigned to by the resolver in a runtime where no
  built-in object has a \<^verbatim>\<open>type\<close>; the case leaves the store as it is.\<close>

fun setField :: "string \<Rightarrow> hval \<Rightarrow> (string \<times> hval) list \<Rightarrow> (string \<times> hval) list" where
  "setField k x [] = [(k, x)]"
| "setField k x ((k', v') # kvs) =
     (if k' = k then (k, x) # kvs else (k', v') # setField k x kvs)"

fun hsetProp :: "heap \<Rightarrow> hval \<Rightarrow> string \<Rightarrow> hval \<Rightarrow> error + heap" where
  "hsetProp st HUndef k x = Inl TypeError"
| "hsetProp st HNull k x = Inl TypeError"
| "hsetProp st (HRef a) k x = Inr (st(a := setField k x (st a)))"
| "hsetProp st v k x = Inr st"

text \<open>\<^verbatim>\<open>s.split("/").slice(-1)[0]\<close>\<close>

definition lastSegment :: "string \<Rightarrow> string" where
  "lastSegment s = last (splitSlash s)"

text \<open>Lines 120 and 121 for the value \<open>v\<close> of \<^verbatim>\<open>schema.items["$ref"]\<close>: \<open>None\<close> when
  \<^verbatim>\<open>/^http/.test(v)\<close> holds, else the name \<^verbatim>\<open>v.split("/").slice(-1)[0]\<close>. The test
  converts \<open>v\<close> to a string, and \<^verbatim>\<open>undefined\<close>, \<^verbatim>\<open>null\<close>, a number, a boolean and an
  object of the document either fail to convert or do not start with "http" and have
  no method \<^verbatim>\<open>split\<close>.\<close>

definition refName :: "host \<Rightarrow> hval \<Rightarrow> error + string option" where
  "refName h v =
     (case v of
        HStr s \<Rightarrow> Inr (if isHttp s then None else Some (lastSegment s))
      | HNative x \<Rightarrow> nativeSegment h x
      | _ \<Rightarrow> Inl TypeError)"

text \<open>\<^verbatim>\<open>swagger.definitions[ref]\<close>\<close>

definition definitionOf :: "host \<Rightarrow> heap \<Rightarrow> hval \<Rightarrow> string \<Rightarrow> error + hval" where
  "definitionOf h st swagger ref =
     bindE (hgetProp h st swagger ''definitions'') (\<lambda>defs. hgetProp h st defs ref)"

text \<open>\<^verbatim>\<open>schema.properties[propKey]\<close>\<close>

definition propertySlot :: "host \<Rightarrow> heap \<Rightarrow> hval \<Rightarrow> string \<Rightarrow> error + hval" where
  "propertySlot h st schema propKey =
     bindE (hgetProp h st schema ''properties'') (\<lambda>props. hgetProp h st props propKey)"

text \<open>Lines 109 to 113: the property is replaced by the definition when its
  \<^verbatim>\<open>$ref\<close> is a string that does not start with "http".\<close>

definition resolveProperty :: "host \<Rightarrow> hval \<Rightarrow> heap \<Rightarrow> hval \<Rightarrow> string \<Rightarrow> error + heap" where
  "resolveProperty h swagger st schema propKey =
     bindE (propertySlot h st schema propKey) (\<lambda>pv.
     bindE (hgetProp h st pv ''$ref'') (\<lambda>r.
       case r of
         HStr s \<Rightarrow>
           if \<not> isHttp s
           then bindE (hgetProp h st schema ''properties'') (\<lambda>props.
                bindE (definitionOf h st swagger (lastSegment s)) (\<lambda>d.
                  hsetProp st props propKey d))
           else Inr st
       | _ \<Rightarrow> Inr st))"

text \<open>Lines 120 to 123: under the key \<^verbatim>\<open>$ref\<close> the items are replaced by the
  definition.\<close>

definition resolveItems :: "host \<Rightarrow> hval \<Rightarrow> heap \<Rightarrow> hval \<Rightarrow> string \<Rightarrow> error + heap" where
  "resolveItems h swagger st schema itemKey =
     (if itemKey = ''$ref''
      then bindE (hgetProp h st schema ''items'') (\<lambda>items.
           bindE (hgetProp h st items itemKey) (\<lambda>r.
           bindE (refName h r) (\<lambda>name.
             case name of
               None \<Rightarrow> Inr st
             | Some ref2 \<Rightarrow> bindE (definitionOf h st swagger ref2) (\<lambda>d.
                              hsetProp st schema ''items'' d))))
      else Inr st)"

text \<open>
  The recursion has no guard against cycles, so the model counts the depth of the
  calls: \<open>None\<close> is a call that does not return within the given depth. A returning
  call yields the store it leaves (its value is its argument \<open>schema\<close>). The two loops
  run over the keys found when they start; each iteration reads \<^verbatim>\<open>schema.properties\<close>
  or \<^verbatim>\<open>schema.items\<close> again from the store.
\<close>

fun getResolvedSchema :: "host \<Rightarrow> nat \<Rightarrow> hval \<Rightarrow> heap \<Rightarrow> hval \<Rightarrow> (error + heap) option"
  and propertiesLoop ::
    "host \<Rightarrow> nat \<Rightarrow> hval \<Rightarrow> heap \<Rightarrow> hval \<Rightarrow> string list \<Rightarrow> (error + heap) option"
  and itemsLoop ::
    "host \<Rightarrow> nat \<Rightarrow> hval \<Rightarrow> heap \<Rightarrow> hval \<Rightarrow> string list \<Rightarrow> (error + heap) option"
where
  "getResolvedSchema h 0 swagger st schema = None"
| "getResolvedSchema h (Suc n) swagger st schema =
     (case hgetProp h st schema ''type'' of
        Inl e \<Rightarrow> Some (Inl e)
      | Inr ty \<Rightarrow>
          if ty = HStr ''object''
          then (case hgetProp h st schema ''properties'' of
                  Inl e \<Rightarrow> Some (Inl e)
                | Inr props \<Rightarrow>
                    if props \<noteq> HUndef
                    then propertiesLoop h n swagger st schema (hforInKeys st props)
                    else Some (Inr st))
          else if ty = HStr ''array''
          then (case hgetProp h st schema ''items'' of
                  Inl e \<Rightarrow> Some (Inl e)
                | Inr items \<Rightarrow>
                    if items \<noteq> HUndef
                    then itemsLoop h n swagger st schema (hforInKeys st items)
                    else Some (Inr st))
          else Some (Inr st))"
| "propertiesLoop h n swagger st schema [] = Some (Inr st)"
| "propertiesLoop h n swagger st schema (propKey # rest) =
     (case resolveProperty h swagger st schema propKey of
        Inl e \<Rightarrow> Some (Inl e)
      | Inr st1 \<Rightarrow>
          (case propertySlot h st1 schema propKey of
             Inl e \<Rightarrow> Some (Inl e)
           | Inr child \<Rightarrow>
               (case getResolvedSchema h n swagger st1 child of
                  None \<Rightarrow> None
                | Some (Inl e) \<Rightarrow> Some (Inl e)
                | Some (Inr st2) \<Rightarrow> propertiesLoop h n swagger st2 schema rest)))"
| "itemsLoop h n swagger st schema [] = Some (Inr st)"
| "itemsLoop h n swagger st schema (itemKey # rest) =
     (case resolveItems h swagger st schema itemKey of
        Inl e \<Rightarrow> Some (Inl e)
      | Inr st1 \<Rightarrow>
          (case hgetProp h st1 schema ''items'' of
             Inl e \<Rightarrow> Some (Inl e)
           | Inr child \<Rightarrow>
               (case getResolvedSchema h n swagger st1 child of
                  None \<Rightarrow> None
                | Some (Inl e) \<Rightarrow> Some (Inl e)
                | Some (Inr st2) \<Rightarrow> itemsLoop h n swagger st2 schema rest)))"

text \<open>A node carries a local reference when its \<^verbatim>\<open>$ref\<close> is a string that does not
  start with "http": the test of line 110.\<close>

definition carriesLocalRef :: "heap \<Rightarrow> addr \<Rightarrow> bool" where
  "carriesLocalRef st a = (case fieldOf (st a) ''$ref'' of HStr s \<Rightarrow> \<not> isHttp s | _ \<Rightarrow> False)"


section \<open>The walk of the Reference Resolver, as specified\<close>

text \<open>Successive key lookups along a list of segments, the value found at the last
  one: the walk the specification describes for a pointer. It is compared with
  \<open>resolveRef\<close> below.\<close>

fun lookupPath :: "host \<Rightarrow> json \<Rightarrow> string list \<Rightarrow> error + json" where
  "lookupPath h v [] = Inr v"
| "lookupPath h v (k # ks) =
     (case getProp h v k of Inl e \<Rightarrow> Inl e | Inr w \<Rightarrow> lookupPath h w ks)"

section \<open>The precedence of the Value Synthesizer, as specified\<close>




section \<open>A runtime for the examples\<close>

text \<open>
  \<open>plainHost\<close> describes a runtime as far as the examples below use one; it is not the
  table of an engine. Values of the five kinds and functions inherit the eleven methods
  of \<^verbatim>\<open>Object.prototype\<close> by name (each kind with its own \<^verbatim>\<open>constructor\<close>) and the
  accessor \<^verbatim>\<open>__proto__\<close>, which answers the prototype object of the kind; a function
  has the methods \<^verbatim>\<open>apply\<close>, \<^verbatim>\<open>bind\<close> and \<^verbatim>\<open>call\<close> besides, a \<^verbatim>\<open>name\<close> and a
  \<^verbatim>\<open>length\<close>, and a constructor its \<^verbatim>\<open>prototype\<close>. The handle \<open>20 * c\<close> is the
  prototype object of the kind numbered \<open>c\<close> (0 for objects, then arrays, strings,
  numbers, booleans and functions) and \<open>20 * c + i + 1\<close> the function a value of that
  kind finds under the \<open>i\<close>-th name. The other members of the built-in objects (the
  array and string methods, the static methods of the constructors) are left out of
  the table.
\<close>

definition objectMembers :: "string list" where
  "objectMembers =
     [''constructor'', ''__defineGetter__'', ''__defineSetter__'', ''hasOwnProperty'',
      ''__lookupGetter__'', ''__lookupSetter__'', ''isPrototypeOf'', ''propertyIsEnumerable'',
      ''toString'', ''valueOf'', ''toLocaleString'']"

definition functionMembers :: "string list" where
  "functionMembers = objectMembers @ [''apply'', ''bind'', ''call'']"

definition constructorNames :: "string list" where
  "constructorNames = [''Object'', ''Array'', ''String'', ''Number'', ''Boolean'', ''Function'']"

definition memberArities :: "int list" where
  "memberArities = [1, 2, 2, 1, 1, 1, 1, 1, 0, 0, 0, 2, 1, 1]"

definition membersOf :: "nat \<Rightarrow> string list" where
  "membersOf c = (if c = 5 then functionMembers else objectMembers)"

definition chainMember :: "nat \<Rightarrow> string \<Rightarrow> member" where
  "chainMember c k =
     (if k = ''__proto__'' then MNative (20 * c)
      else (case find (\<lambda>i. membersOf c ! i = k) [0..<length (membersOf c)] of
              Some i \<Rightarrow> MNative (20 * c + i + 1)
            | None \<Rightarrow> MUndef))"

text \<open>The handles of \<open>plainHost\<close>: the six prototype objects, of which
  \<^verbatim>\<open>Function.prototype\<close> (handle 100) is a function, and the functions.\<close>

definition isPrototype :: "handle \<Rightarrow> bool" where
  "isPrototype x = (x < 120 \<and> x mod 20 = 0)"

definition isFunction :: "handle \<Rightarrow> bool" where
  "isFunction x =
     (x = 100 \<or> (x < 120 \<and> 1 \<le> x mod 20 \<and> x mod 20 \<le> length (membersOf (x div 20))))"

definition functionName :: "handle \<Rightarrow> string" where
  "functionName x =
     (if x mod 20 = 0 then []
      else if x mod 20 = 1 then constructorNames ! (x div 20)
      else functionMembers ! (x mod 20 - 1))"

text \<open>The declared number of parameters; \<^verbatim>\<open>Number.prototype.toString\<close> (handle 69)
  takes a radix.\<close>

definition functionLength :: "handle \<Rightarrow> int" where
  "functionLength x =
     (if x mod 20 = 0 then 0
      else if x = 69 then 1
      else memberArities ! (x mod 20 - 1))"

definition plainInherited :: "receiver \<Rightarrow> string \<Rightarrow> member" where
  "plainInherited r k =
     (case r of
        OfObject \<Rightarrow> chainMember 0 k
      | OfArray \<Rightarrow> chainMember 1 k
      | OfString \<Rightarrow> chainMember 2 k
      | OfNumber \<Rightarrow> chainMember 3 k
      | OfBoolean \<Rightarrow> chainMember 4 k
      | OfNative x \<Rightarrow>
          if isFunction x \<and> k = ''name'' then MStr (functionName x)
          else if isFunction x \<and> k = ''length'' then MNum (functionLength x)
          else if isFunction x \<and> x mod 20 = 1 \<and> k = ''prototype'' then MNative (x - 1)
          else if x = 0 then (if k = ''__proto__'' then MNull else chainMember 0 k)
          else if isPrototype x
          then (if k = ''__proto__'' then MNative 0 else chainMember (x div 20) k)
          else if isFunction x then chainMember 5 k
          else MUndef)"

text \<open>The string forms: a function prints its name between \<^verbatim>\<open>function\<close> and the
  marker of built-in code, \<^verbatim>\<open>Object.prototype\<close> is an object, and the prototypes of
  arrays, strings, numbers and booleans are an empty array, an empty string, 0 and
  \<^verbatim>\<open>false\<close>.\<close>

definition plainNativeString :: "handle \<Rightarrow> error + string" where
  "plainNativeString x =
     (if isFunction x then Inr (''function '' @ functionName x @ ''() { [native code] }'')
      else if x = 0 then Inr ''[object Object]''
      else if x = 60 then Inr ''0''
      else if x = 80 then Inr ''false''
      else Inr [])"

definition plainNativeJson :: "handle \<Rightarrow> error + json" where
  "plainNativeJson x =
     (if x = 0 then Inr (JObj [])
      else if x = 20 then Inr (JArr [])
      else if x = 40 then Inr (JStr [])
      else if x = 60 then Inr (JNum 0)
      else if x = 80 then Inr (JBool False)
      else Inr JUndef)"

text \<open>A JSON text for a value of the document, as the host's serialiser for the
  instantiator's result: strings are quoted with the quote and the backslash escaped,
  and a member without a JSON text is left out of an object and \<^verbatim>\<open>null\<close> in an array.\<close>

definition quoted :: "string \<Rightarrow> string" where
  "quoted s =
     CHR 0x22 # concat (map (\<lambda>c. if c = CHR 0x22 \<or> c = CHR 0x5C then [CHR 0x5C, c] else [c]) s)
       @ [CHR 0x22]"

fun jsonText :: "json \<Rightarrow> string option" where
  "jsonText JUndef = None"
| "jsonText (JNative x) = None"
| "jsonText JNull = Some ''null''"
| "jsonText (JBool b) = Some (if b then ''true'' else ''false'')"
| "jsonText (JNum n) = Some (showInt n)"
| "jsonText (JStr s) = Some (quoted s)"
| "jsonText (JArr xs) =
     Some (''['' @ joinWith '','' (map (\<lambda>x. case jsonText x of Some t \<Rightarrow> t | None \<Rightarrow> ''null'') xs)
           @ '']'')"
| "jsonText (JObj kvs) =
     Some (''{'' @ joinWith '',''
             (concat (map (\<lambda>kv. case jsonText (snd kv) of
                                   Some t \<Rightarrow> [quoted (fst kv) @ '':'' @ t]
                                 | None \<Rightarrow> []) kvs))
           @ ''}'')"

text \<open>The instantiator of the examples hands the schema back; nothing has defined the
  global \<^verbatim>\<open>values\<close>; the built-in functions throw on \<^verbatim>\<open>caller\<close> and \<^verbatim>\<open>arguments\<close>;
  of the calls of built-in functions only that of \<^verbatim>\<open>Object.prototype.valueOf\<close> on an
  object is described (it returns the object), and \<^verbatim>\<open>String.prototype\<close>, the empty
  string object, is the one built-in object with a method \<^verbatim>\<open>split\<close>. The examples
  have no string outside ASCII, no number of 21 digits and no string compared with
  0.\<close>

definition plainHost :: host where
  "plainHost = \<lparr>instantiate = (\<lambda>schema. Inr schema),
                 jsonStringify = (\<lambda>v. case jsonText v of Some t \<Rightarrow> JStr t | None \<Rightarrow> JUndef),
                 globalValues = JUndef,
                 inherited = plainInherited,
                 restricted = isFunction,
                 nativeString = plainNativeString,
                 nativeJson = plainNativeJson,
                 callNative = (\<lambda>g v. if g = 10 \<and> isObject v then Inr v else Inl TypeError),
                 nativeSegment = (\<lambda>x. if x = 40 then Inr (Some []) else Inl TypeError),
                 upperCase = map upperChar,
                 lowerCase = map lowerChar,
                 numberString = showInt,
                 stringGtZero = (\<lambda>s. False)\<rparr>"

section \<open>Example documents\<close>

text \<open>An operation \<^verbatim>\<open>GET /pets\<close> with one query parameter that declares a type and
  nothing else.\<close>

definition limitParam :: json where
  "limitParam = JObj [(''name'', JStr ''limit''), (''in'', JStr ''query''),
                      (''schema'', JObj [(''type'', JStr ''integer'')])]"

definition limitDoc :: json where
  "limitDoc = JObj [(''paths'', JObj [(''/pets'', JObj [(''get'',
     JObj [(''parameters'', JArr [limitParam])])])])]"

text \<open>The same parameter with a default and an example in its schema.\<close>

definition exampleParam :: json where
  "exampleParam = JObj [(''name'', JStr ''limit''), (''in'', JStr ''query''),
                        (''default'', JNum 7),
                        (''schema'', JObj [(''type'', JStr ''integer''),
                                           (''example'', JStr ''42'')])]"

definition exampleDoc :: json where
  "exampleDoc = JObj [(''paths'', JObj [(''/pets'', JObj [(''get'',
     JObj [(''parameters'', JArr [exampleParam])])])])]"

text \<open>Two declared operations; the query parameter of the second has no schema, so
  reading its type throws.\<close>

definition brokenDoc :: json where
  "brokenDoc = JObj [(''paths'', JObj
     [(''/ok'', JObj [(''get'', JObj [])]),
      (''/bad'', JObj [(''get'', JObj [(''parameters'',
          JArr [JObj [(''name'', JStr ''q''), (''in'', JStr ''query'')]])])])])]"

text \<open>A document with a definition that is an empty schema.\<close>

definition anyValueDoc :: json where
  "anyValueDoc = JObj [(''definitions'', JObj [(''AnyValue'', JObj [])])]"

text \<open>An operation that declares the required header \<^verbatim>\<open>Authorization\<close>, and one
  that declares it through a reference into \<^verbatim>\<open>components.parameters\<close>.\<close>

definition authParam :: json where
  "authParam = JObj [(''name'', JStr ''Authorization''), (''in'', JStr ''header''),
                     (''required'', JBool True), (''schema'', JObj [(''type'', JStr ''string'')])]"

definition authDoc :: json where
  "authDoc = JObj [(''paths'', JObj [(''/pets'', JObj [(''get'',
     JObj [(''parameters'', JArr [authParam])])])])]"

definition authRefDoc :: json where
  "authRefDoc = JObj
     [(''paths'', JObj [(''/pets'', JObj [(''get'', JObj [(''parameters'',
         JArr [JObj [(''$ref'', JStr ''#/components/parameters/Auth'')]])])])]),
      (''components'', JObj [(''parameters'', JObj [(''Auth'', authParam)])])]"

text \<open>An operation whose two parameters are references into
  \<^verbatim>\<open>components.parameters\<close>: a required header and a query parameter.\<close>

definition tokenParam :: json where
  "tokenParam = JObj [(''name'', JStr ''X-Token''), (''in'', JStr ''header''),
                      (''required'', JBool True), (''schema'', JObj [(''type'', JStr ''string'')])]"

definition pageParam :: json where
  "pageParam = JObj [(''name'', JStr ''page''), (''in'', JStr ''query''),
                     (''schema'', JObj [(''type'', JStr ''integer''), (''example'', JStr ''10'')])]"

definition refDoc :: json where
  "refDoc = JObj
     [(''paths'', JObj [(''/pets'', JObj [(''get'', JObj [(''parameters'',
         JArr [JObj [(''$ref'', JStr ''#/components/parameters/Token'')],
               JObj [(''$ref'', JStr ''#/components/parameters/Page'')]])])])]),
      (''components'', JObj [(''parameters'',
         JObj [(''Token'', tokenParam), (''Page'', pageParam)])])]"

text \<open>An operation with a JSON request body whose schema refers to the definition
  \<^verbatim>\<open>Pet\<close>.\<close>

definition petBodySchema :: json where
  "petBodySchema = JObj [(''type'', JStr ''object''),
                         (''properties'', JObj [(''pet'', JObj [(''$ref'', JStr ''#/definitions/Pet'')])])]"

definition petDoc :: json where
  "petDoc = JObj
     [(''paths'', JObj [(''/pets'', JObj [(''post'', JObj [(''requestBody'',
         JObj [(''content'', JObj [(''application/json'', JObj [(''schema'', petBodySchema)])])])])])]),
      (''definitions'', JObj [(''Pet'',
         JObj [(''type'', JStr ''object''),
               (''properties'', JObj [(''name'', JObj [(''type'', JStr ''string'')])])])])]"




section \<open>Example stores\<close>

text \<open>A store with a document (address 0) whose definitions (1) are \<^verbatim>\<open>Pet\<close> (2) and
  \<^verbatim>\<open>Owner\<close> (5); \<^verbatim>\<open>Pet\<close> has a property that refers to \<^verbatim>\<open>Owner\<close>. The schema to
  resolve (9) is an object with one property, a reference to \<^verbatim>\<open>Pet\<close>.\<close>

definition petStore :: heap where
  "petStore = (\<lambda>_. [])
     (0 := [(''definitions'', HRef 1)],
      1 := [(''Pet'', HRef 2), (''Owner'', HRef 5)],
      2 := [(''type'', HStr ''object''), (''properties'', HRef 3)],
      3 := [(''owner'', HRef 4), (''name'', HRef 7)],
      4 := [(''$ref'', HStr ''#/definitions/Owner'')],
      5 := [(''type'', HStr ''object''), (''properties'', HRef 6)],
      6 := [(''id'', HRef 8)],
      7 := [(''type'', HStr ''string'')],
      8 := [(''type'', HStr ''integer'')],
      9 := [(''type'', HStr ''object''), (''properties'', HRef 10)],
      10 := [(''pet'', HRef 11)],
      11 := [(''$ref'', HStr ''#/definitions/Pet'')])"

text \<open>The same store with a \<^verbatim>\<open>Pet\<close> that declares its properties but no type.\<close>

definition untypedPetStore :: heap where
  "untypedPetStore = petStore(2 := [(''properties'', HRef 3)])"

text \<open>The store where the definition \<^verbatim>\<open>Owner\<close> is itself a reference, to
  \<^verbatim>\<open>Person\<close> (13).\<close>

definition aliasPetStore :: heap where
  "aliasPetStore = petStore
     (1 := [(''Pet'', HRef 2), (''Owner'', HRef 5), (''Person'', HRef 13)],
      5 := [(''$ref'', HStr ''#/definitions/Person'')],
      13 := [(''type'', HStr ''object'')])"


section \<open>Basic facts\<close>

lemma bindE_Inr [simp]: "bindE (Inr v) f = f v"
  by (simp add: bindE_def)

lemma bindE_Inl [simp]: "bindE (Inl e) f = Inl e"
  by (simp add: bindE_def)

lemma bindE_eq_Inr: "bindE m f = Inr r \<longleftrightarrow> (\<exists>v. m = Inr v \<and> f v = Inr r)"
  by (cases m) simp_all

lemma collectE_Inr_member:
  "collectE f xs = Inr out \<Longrightarrow> x \<in> set xs \<Longrightarrow> \<exists>ys. f x = Inr ys \<and> set ys \<subseteq> set out"
proof (induction xs arbitrary: out)
  case Nil
  then show ?case by simp
next
  case (Cons a xs)
  from Cons.prems(1) obtain ys zs where a: "f a = Inr ys" and r: "collectE f xs = Inr zs"
    and out: "out = ys @ zs"
    by (auto split: sum.splits)
  show ?case
  proof (cases "x = a")
    case True
    with a out show ?thesis by auto
  next
    case False
    with Cons.prems(2) have "x \<in> set xs" by simp
    from Cons.IH [OF r this] out show ?thesis by auto
  qed
qed

lemma collectE_Inr_origin:
  "collectE f xs = Inr out \<Longrightarrow> y \<in> set out \<Longrightarrow> \<exists>x \<in> set xs. \<exists>ys. f x = Inr ys \<and> y \<in> set ys"
proof (induction xs arbitrary: out)
  case Nil
  then show ?case by simp
next
  case (Cons a xs)
  from Cons.prems(1) obtain ys zs where a: "f a = Inr ys" and r: "collectE f xs = Inr zs"
    and out: "out = ys @ zs"
    by (auto split: sum.splits)
  from Cons.prems(2) out consider "y \<in> set ys" | "y \<in> set zs" by auto
  then show ?case
  proof cases
    case 1
    with a show ?thesis by auto
  next
    case 2
    from Cons.IH [OF r 2] show ?thesis by auto
  qed
qed

lemma collectE_Inl:
  "x \<in> set xs \<Longrightarrow> f x = Inl e \<Longrightarrow> \<exists>e'. collectE f xs = Inl e'"
  by (induction xs) (auto split: sum.splits)

text \<open>A read throws on \<^verbatim>\<open>undefined\<close> and \<^verbatim>\<open>null\<close>, and otherwise only under the two
  restricted keys.\<close>

lemma getProp_Inr_not_nullish: "getProp h v k = Inr r \<Longrightarrow> v \<noteq> JUndef \<and> v \<noteq> JNull"
  by (cases v) auto

lemma getProp_total:
  assumes "v \<noteq> JUndef" and "v \<noteq> JNull" and "k \<noteq> ''caller''" and "k \<noteq> ''arguments''"
  shows "\<exists>r. getProp h v k = Inr r"
  using assms
  by (cases v) (auto simp: inheritedProp_def nativeProp_def split: option.splits)

lemma toStr_JStr [simp]: "toStr h (JStr s) = Inr s"
  by (simp add: toStr_def)

lemma toStr_JUndef [simp]: "toStr h JUndef = Inr ''undefined''"
  by (simp add: toStr_def)

lemma toKey_JStr [simp]: "toKey h (JStr s) = Inr s"
  by (simp add: toKey_def)

lemma getPropAt_JStr [simp]: "getPropAt h v (JStr k) = getProp h v k"
  by (simp add: getPropAt_def)


section \<open>Query values\<close>

lemma paramType_total:
  assumes i: "getProp h param ''in'' = Inr i"
      and s: "getProp h param ''schema'' = Inr schema"
      and e: "getProp h schema k = Inr x"
  shows "\<exists>t. paramType h param = Inr t"
proof (cases "truthy i")
  case True
  from e have "schema \<noteq> JUndef \<and> schema \<noteq> JNull" by (rule getProp_Inr_not_nullish)
  then obtain t where "getProp h schema ''type'' = Inr t"
    using getProp_total [of schema "''type''" h] by auto
  with True i s show ?thesis by (simp add: paramType_def)
next
  case False
  from i have "param \<noteq> JUndef \<and> param \<noteq> JNull" by (rule getProp_Inr_not_nullish)
  then obtain t where "getProp h param ''type'' = Inr t"
    using getProp_total [of param "''type''" h] by auto
  with False i show ?thesis by (simp add: paramType_def)
qed

lemma paramIn_True_read:
  assumes "paramIn h loc param = Inr True"
  shows "\<exists>i. getProp h param ''in'' = Inr i"
  using assms by (auto simp: paramIn_def bindE_eq_Inr)

lemma queryStringOf_example:
  assumes d: "derefParam h swagger param0 = Inr param"
      and q: "paramIn h ''query'' param = Inr True"
      and s: "getProp h param ''schema'' = Inr schema"
      and e: "getProp h schema ''example'' = Inr (JStr ''42'')"
      and n: "getProp h param ''name'' = Inr name"
  shows "queryStringOf h swagger vals param0
           = Inr [JObj [(''name'', name), (''value'', JStr ''42'')]]"
proof -
  from paramIn_True_read [OF q] obtain i where i: "getProp h param ''in'' = Inr i" by blast
  from paramType_total [OF i s e] obtain t where pt: "paramType h param = Inr t" by blast
  have ex: "queryExampleVal h param = Inr (JStr ''42'')"
    using s e by (simp add: queryExampleVal_def)
  show ?thesis
    using d q pt ex n by (simp add: queryStringOf_def)
qed

text \<open>
  C3. A declared parameter (the one under key \<open>k\<close> of the operation's parameter list,
  after its reference is resolved) that is a query parameter and whose schema declares
  the example "42" makes \<^verbatim>\<open>getQueryStrings\<close> emit the value "42" under its name: the
  loop body pushes exactly that entry for every value map \<open>vals\<close>, whatever the
  parameter's default is, and every list \<^verbatim>\<open>getQueryStrings\<close> returns, for every
  caller-supplied value map \<open>vals0\<close>, holds the entry.
\<close>

theorem query_example_wins:
  assumes op: "operationOf h swagger path method = Inr operation"
      and ps: "getProp h operation ''parameters'' = Inr params"
      and k: "k \<in> set (forInKeys params)"
      and p0: "getProp h params k = Inr param0"
      and d: "derefParam h swagger param0 = Inr param"
      and q: "paramIn h ''query'' param = Inr True"
      and s: "getProp h param ''schema'' = Inr schema"
      and e: "getProp h schema ''example'' = Inr (JStr ''42'')"
      and n: "getProp h param ''name'' = Inr name"
  shows "queryStringOf h swagger vals param0
           = Inr [JObj [(''name'', name), (''value'', JStr ''42'')]]
       \<and> (\<forall>vals0 out. getQueryStrings h swagger path method vals0 = Inr (JArr out)
             \<longrightarrow> JObj [(''name'', name), (''value'', JStr ''42'')] \<in> set out)"
proof (intro conjI allI impI)
  show "queryStringOf h swagger vals param0
          = Inr [JObj [(''name'', name), (''value'', JStr ''42'')]]"
    by (rule queryStringOf_example [OF d q s e n])
next
  fix vals0 out
  assume run: "getQueryStrings h swagger path method vals0 = Inr (JArr out)"
  define vals1 where "vals1 = (if vals0 = JUndef then JObj [] else vals0)"
  have pne: "params \<noteq> JUndef" using k by auto
  from run op ps pne
  have c: "collectE (\<lambda>i. bindE (getProp h params i) (queryStringOf h swagger vals1))
             (forInKeys params) = Inr out"
    by (auto simp: getQueryStrings_def Let_def vals1_def bindE_eq_Inr)
  from collectE_Inr_member [OF c k] obtain ys where
    ys: "bindE (getProp h params k) (queryStringOf h swagger vals1) = Inr ys"
    and sub: "set ys \<subseteq> set out"
    by blast
  from ys p0 queryStringOf_example [OF d q s e n, of vals1]
  have "ys = [JObj [(''name'', name), (''value'', JStr ''42'')]]" by simp
  with sub show "JObj [(''name'', name), (''value'', JStr ''42'')] \<in> set out" by simp
qed

theorem query_example_wins_witness:
  "queryStringOf plainHost exampleDoc (JObj [(''limit'', JNum 5)]) exampleParam
     = Inr [JObj [(''name'', JStr ''limit''), (''value'', JStr ''42'')]]
   \<and> getQueryStrings plainHost exampleDoc ''/pets'' ''get'' (JObj [(''limit'', JNum 5)])
     = Inr (JArr [JObj [(''name'', JStr ''limit''), (''value'', JStr ''42'')]])
   \<and> JObj [(''name'', JStr ''limit''), (''value'', JStr ''42'')]
       \<in> set [JObj [(''name'', JStr ''limit''), (''value'', JStr ''42'')]]"
proof -
  have op: "operationOf plainHost exampleDoc ''/pets'' ''get''
              = Inr (JObj [(''parameters'', JArr [exampleParam])])"
    by code_simp
  have ps: "getProp plainHost (JObj [(''parameters'', JArr [exampleParam])]) ''parameters''
              = Inr (JArr [exampleParam])"
    by code_simp
  have k: "''0'' \<in> set (forInKeys (JArr [exampleParam]))" by code_simp
  have p0: "getProp plainHost (JArr [exampleParam]) ''0'' = Inr exampleParam" by code_simp
  have d: "derefParam plainHost exampleDoc exampleParam = Inr exampleParam" by code_simp
  have q: "paramIn plainHost ''query'' exampleParam = Inr True" by code_simp
  have s: "getProp plainHost exampleParam ''schema''
             = Inr (JObj [(''type'', JStr ''integer''), (''example'', JStr ''42'')])"
    by code_simp
  have e: "getProp plainHost (JObj [(''type'', JStr ''integer''), (''example'', JStr ''42'')])
             ''example'' = Inr (JStr ''42'')"
    by code_simp
  have n: "getProp plainHost exampleParam ''name'' = Inr (JStr ''limit'')" by code_simp
  have run: "getQueryStrings plainHost exampleDoc ''/pets'' ''get'' (JObj [(''limit'', JNum 5)])
     = Inr (JArr [JObj [(''name'', JStr ''limit''), (''value'', JStr ''42'')]])"
    by code_simp
  note main = query_example_wins [OF op ps k p0 d q s e n, of "JObj [(''limit'', JNum 5)]"]
  from main have a: "queryStringOf plainHost exampleDoc (JObj [(''limit'', JNum 5)]) exampleParam
     = Inr [JObj [(''name'', JStr ''limit''), (''value'', JStr ''42'')]]"
    by (rule conjunct1)
  from main run have b: "JObj [(''name'', JStr ''limit''), (''value'', JStr ''42'')]
       \<in> set [JObj [(''name'', JStr ''limit''), (''value'', JStr ''42'')]]"
    by blast
  from a run b show ?thesis by (intro conjI)
qed

text \<open>
  C2. The query parameter \<open>limit\<close> of \<open>limitDoc\<close> has no example, no default and the
  schema type "integer", and the caller supplies no value map. \<^verbatim>\<open>getQueryStrings\<close>
  emits the value "undefined" for it, not "SOME_INTEGER_VALUE": the absent example is
  compared with the string \<^verbatim>\<open>'undefined'\<close> instead of having its \<^verbatim>\<open>typeof\<close> taken, so
  it is converted to the string "undefined", which is not empty and wins.
\<close>

theorem query_placeholder_undefined:
  "getQueryStrings plainHost limitDoc ''/pets'' ''get'' JUndef
     = Inr (JArr [JObj [(''name'', JStr ''limit''), (''value'', JStr ''undefined'')]])"
  by code_simp


section \<open>Pointers\<close>

lemma splitSlash_not_Nil [simp]: "splitSlash s \<noteq> []"
  by (induction s) (auto split: list.splits)

lemma splitSlash_single: "length (splitSlash s) \<le> 1 \<longleftrightarrow> CHR ''/'' \<notin> set s"
proof (induction s)
  case Nil
  then show ?case by simp
next
  case (Cons c cs)
  obtain p ps where sp: "splitSlash cs = p # ps"
    by (cases "splitSlash cs") auto
  with Cons show ?case by auto
qed

lemma recursive_lookupPath:
  "index < length parts \<Longrightarrow> recursive h parts obj index = lookupPath h obj (drop index parts)"
proof (induction h parts obj index rule: recursive.induct)
  case (1 h parts obj index)
  have d: "drop index parts = parts ! index # drop (Suc index) parts"
    using "1.prems" by (simp add: Cons_nth_drop_Suc)
  show ?case
  proof (cases "index + 1 < length parts")
    case True
    show ?thesis
    proof (cases "getProp h obj (partAt parts index)")
      case (Inl e)
      with True "1.prems" d show ?thesis
        by (simp add: recursive.simps [of h parts obj index] partAt_def)
    next
      case (Inr w)
      from "1.IH" [OF True Inr] True
      have "recursive h parts w (index + 1) = lookupPath h w (drop (index + 1) parts)" by simp
      with True "1.prems" d Inr show ?thesis
        by (simp add: recursive.simps [of h parts obj index] partAt_def)
    qed
  next
    case False
    with "1.prems" have "drop (Suc index) parts = []" by simp
    with False "1.prems" d show ?thesis
      by (simp add: recursive.simps [of h parts obj index] partAt_def split: sum.splits)
  qed
qed

lemma lookupPath_append:
  "lookupPath h v (pre @ post)
     = (case lookupPath h v pre of Inl e \<Rightarrow> Inl e | Inr w \<Rightarrow> lookupPath h w post)"
  by (induction pre arbitrary: v) (auto split: sum.splits)

lemma lookupPath_through_undefined:
  assumes "lookupPath h oai pre = Inr v" and "getProp h v s = Inr JUndef" and "post \<noteq> []"
  shows "lookupPath h oai (pre @ s # post) = Inl TypeError"
  using assms by (cases post) (simp_all add: lookupPath_append)

lemma resolveRef_slash:
  assumes "CHR ''/'' \<in> set ref"
  shows "resolveRef h oai ref = lookupPath h oai (tl (splitSlash ref))"
proof -
  from assms have l: "\<not> length (splitSlash ref) \<le> 1" using splitSlash_single [of ref] by simp
  then have "1 < length (splitSlash ref)" by simp
  from recursive_lookupPath [OF this]
  have "recursive h (splitSlash ref) oai 1 = lookupPath h oai (drop 1 (splitSlash ref))" .
  with l show ?thesis by (simp add: resolveRef_def Let_def drop_Suc)
qed

text \<open>
  C10, as amended. A pointer without "/" makes \<open>resolveRef\<close> return an empty object
  without looking at the document. A pointer with a "/" makes it return what the
  successive key lookups find for the segments after the first, where a lookup
  (\<open>getProp\<close>) finds an own property of the document's value or else a member the
  value inherits: the result is an empty object exactly when the lookups end at one.
  When a lookup before the last segment yields \<^verbatim>\<open>undefined\<close> (the key is neither in
  the document nor inherited), the next lookup throws a \<open>TypeError\<close>: no empty result
  is returned.
\<close>

theorem resolveRef_fallback_or_walk:
  "(CHR ''/'' \<notin> set ref \<longrightarrow> resolveRef h oai ref = Inr (JObj []))
 \<and> (CHR ''/'' \<in> set ref \<longrightarrow> resolveRef h oai ref = lookupPath h oai (tl (splitSlash ref)))
 \<and> (\<forall>pre s post v.
       tl (splitSlash ref) = pre @ s # post \<and> post \<noteq> [] \<and>
       lookupPath h oai pre = Inr v \<and> getProp h v s = Inr JUndef
       \<longrightarrow> resolveRef h oai ref = Inl TypeError)"
proof (intro conjI allI impI)
  assume "CHR ''/'' \<notin> set ref"
  then show "resolveRef h oai ref = Inr (JObj [])"
    using splitSlash_single [of ref] by (simp add: resolveRef_def Let_def)
next
  assume "CHR ''/'' \<in> set ref"
  then show "resolveRef h oai ref = lookupPath h oai (tl (splitSlash ref))"
    by (rule resolveRef_slash)
next
  fix pre s post v
  assume a: "tl (splitSlash ref) = pre @ s # post \<and> post \<noteq> [] \<and>
       lookupPath h oai pre = Inr v \<and> getProp h v s = Inr JUndef"
  then have "tl (splitSlash ref) \<noteq> []" by auto
  then have "\<not> length (splitSlash ref) \<le> 1"
    by (cases "splitSlash ref") auto
  then have "CHR ''/'' \<in> set ref" using splitSlash_single [of ref] by simp
  from resolveRef_slash [OF this] a lookupPath_through_undefined [of h oai pre v s post]
  show "resolveRef h oai ref = Inl TypeError" by simp
qed

text \<open>
  C10, counterexamples to the claim as stated, in the runtime of the examples. The
  pointer "#/definitions/AnyValue" contains the separator, and \<open>resolveRef\<close> returns an
  empty object for it, because the document stores an empty schema under that
  definition. The pointer "#/constructor/name" has the intermediate segment
  "constructor", which is no key of the document (its keys are listed); \<open>resolveRef\<close>
  raises nothing and returns the string "Object", the name of the constructor that
  every object inherits.
\<close>

theorem resolveRef_stored_or_inherited:
  "resolveRef plainHost anyValueDoc ''#/definitions/AnyValue'' = Inr (JObj [])
   \<and> CHR ''/'' \<in> set ''#/definitions/AnyValue''
   \<and> forInKeys anyValueDoc = [''definitions'']
   \<and> tl (splitSlash ''#/constructor/name'') = [''constructor'', ''name'']
   \<and> resolveRef plainHost anyValueDoc ''#/constructor/name'' = Inr (JStr ''Object'')"
  by code_simp

theorem resolveRef_fallback_or_walk_witness:
  "resolveRef plainHost anyValueDoc ''#'' = Inr (JObj [])
   \<and> resolveRef plainHost anyValueDoc ''#/definitions/AnyValue''
       = lookupPath plainHost anyValueDoc [''definitions'', ''AnyValue'']
   \<and> resolveRef plainHost anyValueDoc ''#/components/parameters/Token'' = Inl TypeError"
proof -
  note main = resolveRef_fallback_or_walk
  have n: "CHR ''/'' \<notin> set ''#''" by simp
  have y: "CHR ''/'' \<in> set ''#/definitions/AnyValue''" by simp
  have t1: "tl (splitSlash ''#/definitions/AnyValue'') = [''definitions'', ''AnyValue'']"
    by code_simp
  have t2: "tl (splitSlash ''#/components/parameters/Token'')
              = [] @ ''components'' # [''parameters'', ''Token'']"
    by code_simp
  have l: "lookupPath plainHost anyValueDoc [] = Inr anyValueDoc" by simp
  have g: "getProp plainHost anyValueDoc ''components'' = Inr JUndef" by code_simp
  from main [of "''#''" plainHost anyValueDoc] n
  have a: "resolveRef plainHost anyValueDoc ''#'' = Inr (JObj [])" by blast
  from main [of "''#/definitions/AnyValue''" plainHost anyValueDoc] y t1
  have b: "resolveRef plainHost anyValueDoc ''#/definitions/AnyValue''
       = lookupPath plainHost anyValueDoc [''definitions'', ''AnyValue'']" by simp
  from main [of "''#/components/parameters/Token''" plainHost anyValueDoc] t2 l g
  have c: "resolveRef plainHost anyValueDoc ''#/components/parameters/Token'' = Inl TypeError"
    by blast
  from a b c show ?thesis by (intro conjI)
qed


section \<open>Base URL and batch conversion\<close>

lemma getBaseUrl_no_servers:
  assumes "getProp h swagger ''servers'' = Inr JUndef
           \<or> getProp h swagger ''servers'' = Inr (JArr [])"
  shows "getBaseUrl h swagger = Inr JUndef"
  using assms by (auto simp: getBaseUrl_def gtZero_def toPrimitive_def)

lemma createHar_url:
  assumes "createHar h swagger path method q k = Inr har"
  shows "\<exists>b base. getBaseUrl h swagger = Inr b \<and> toStr h b = Inr base \<and>
           getProp h har ''url'' = Inr (JStr (base @ path))"
proof -
  from assms obtain b base rest where b: "getBaseUrl h swagger = Inr b"
    and base: "toStr h b = Inr base"
    and har: "har = JObj ((''method'', JStr (upperString h method))
                          # (''url'', JStr (base @ path)) # rest)"
    unfolding createHar_def Let_def bindE_eq_Inr by auto
  then show ?thesis by simp
qed

lemma harEntry_shape:
  assumes "harEntry h swagger b path method = Inr es"
  shows "\<exists>base har d. toStr h b = Inr base \<and>
           createHar h swagger path method JUndef JUndef = Inr har \<and>
           es = [JObj [(''method'', JStr (upperString h method)),
                       (''url'', JStr (base @ path)),
                       (''description'', d), (''har'', har)]]"
  using assms unfolding harEntry_def bindE_eq_Inr by auto

lemma harList_Inr:
  assumes "harList h swagger = Inr entries"
  shows "\<exists>b paths. getBaseUrl h swagger = Inr b \<and> getProp h swagger ''paths'' = Inr paths \<and>
           collectE (\<lambda>path. bindE (getProp h paths path) (\<lambda>pathItem.
               collectE (harEntry h swagger b path) (forInKeys pathItem)))
             (forInKeys paths) = Inr entries"
  using assms unfolding harList_def bindE_eq_Inr by auto

text \<open>Every entry of a returned batch comes from one declared path and method.\<close>

lemma harList_entry:
  assumes l: "harList h swagger = Inr entries" and e: "e \<in> set entries"
  shows "\<exists>b base paths path pathItem method har d.
           getBaseUrl h swagger = Inr b \<and> toStr h b = Inr base \<and>
           getProp h swagger ''paths'' = Inr paths \<and>
           path \<in> set (forInKeys paths) \<and> getProp h paths path = Inr pathItem \<and>
           method \<in> set (forInKeys pathItem) \<and>
           createHar h swagger path method JUndef JUndef = Inr har \<and>
           e = JObj [(''method'', JStr (upperString h method)),
                     (''url'', JStr (base @ path)),
                     (''description'', d), (''har'', har)]"
proof -
  from harList_Inr [OF l] obtain b paths where b: "getBaseUrl h swagger = Inr b"
    and p: "getProp h swagger ''paths'' = Inr paths"
    and c: "collectE (\<lambda>path. bindE (getProp h paths path) (\<lambda>pathItem.
               collectE (harEntry h swagger b path) (forInKeys pathItem)))
             (forInKeys paths) = Inr entries"
    by blast
  from collectE_Inr_origin [OF c e] obtain path ys where path: "path \<in> set (forInKeys paths)"
    and ys: "bindE (getProp h paths path) (\<lambda>pathItem.
               collectE (harEntry h swagger b path) (forInKeys pathItem)) = Inr ys"
    and ey: "e \<in> set ys"
    by blast
  from ys obtain pathItem where pi: "getProp h paths path = Inr pathItem"
    and c2: "collectE (harEntry h swagger b path) (forInKeys pathItem) = Inr ys"
    unfolding bindE_eq_Inr by blast
  from collectE_Inr_origin [OF c2 ey] obtain meth es where
    m: "meth \<in> set (forInKeys pathItem)" and es: "harEntry h swagger b path meth = Inr es"
    and ee: "e \<in> set es"
    by blast
  from harEntry_shape [OF es] ee obtain base har d where
    "toStr h b = Inr base"
    "createHar h swagger path meth JUndef JUndef = Inr har"
    "e = JObj [(''method'', JStr (upperString h meth)), (''url'', JStr (base @ path)),
               (''description'', d), (''har'', har)]"
    by auto
  with b p path pi m show ?thesis by blast
qed

text \<open>A declared pair whose request object cannot be built makes the body throw.\<close>

lemma harList_Inl:
  assumes p: "getProp h swagger ''paths'' = Inr paths"
      and path: "path \<in> set (forInKeys paths)"
      and pi: "getProp h paths path = Inr pathItem"
      and m: "method \<in> set (forInKeys pathItem)"
      and c: "createHar h swagger path method JUndef JUndef = Inl e"
  shows "\<exists>e'. harList h swagger = Inl e'"
proof (cases "getBaseUrl h swagger")
  case (Inl e0)
  then show ?thesis by (simp add: harList_def)
next
  case (Inr b)
  from c obtain e0 where "harEntry h swagger b path method = Inl e0"
    by (cases "toStr h b") (simp_all add: harEntry_def)
  from collectE_Inl [of "method" "forInKeys pathItem" "harEntry h swagger b path" e0, OF m this]
  obtain e1 where
    "collectE (harEntry h swagger b path) (forInKeys pathItem) = Inl e1" by blast
  with pi have "bindE (getProp h paths path) (\<lambda>pathItem.
               collectE (harEntry h swagger b path) (forInKeys pathItem)) = Inl e1"
    by simp
  from collectE_Inl [of path "forInKeys paths" "\<lambda>path. bindE (getProp h paths path) (\<lambda>pathItem.
               collectE (harEntry h swagger b path) (forInKeys pathItem))" e1, OF path this]
  obtain e2 where
    "collectE (\<lambda>path. bindE (getProp h paths path) (\<lambda>pathItem.
               collectE (harEntry h swagger b path) (forInKeys pathItem)))
             (forInKeys paths) = Inl e2" by blast
  with Inr p show ?thesis by (simp add: harList_def)
qed

text \<open>Every declared pair has its entry in a returned batch.\<close>

lemma harList_complete:
  assumes l: "harList h swagger = Inr entries"
      and p: "getProp h swagger ''paths'' = Inr paths"
      and path: "path \<in> set (forInKeys paths)"
      and pi: "getProp h paths path = Inr pathItem"
      and m: "method \<in> set (forInKeys pathItem)"
  shows "\<exists>har. createHar h swagger path method JUndef JUndef = Inr har \<and>
           (\<exists>e \<in> set entries. getProp h e ''har'' = Inr har)"
proof -
  from harList_Inr [OF l] p obtain b where
    c: "collectE (\<lambda>path. bindE (getProp h paths path) (\<lambda>pathItem.
               collectE (harEntry h swagger b path) (forInKeys pathItem)))
             (forInKeys paths) = Inr entries"
    by auto
  from collectE_Inr_member [OF c path] pi obtain ys where
    c2: "collectE (harEntry h swagger b path) (forInKeys pathItem) = Inr ys"
    and sub: "set ys \<subseteq> set entries"
    by auto
  from collectE_Inr_member [OF c2 m] obtain es where
    es: "harEntry h swagger b path method = Inr es" and sub2: "set es \<subseteq> set ys"
    by blast
  from harEntry_shape [OF es] obtain base har d where
    har: "createHar h swagger path method JUndef JUndef = Inr har"
    and shape: "es = [JObj [(''method'', JStr (upperString h method)),
                            (''url'', JStr (base @ path)),
                            (''description'', d), (''har'', har)]]"
    by blast
  from shape sub sub2 have
    "JObj [(''method'', JStr (upperString h method)), (''url'', JStr (base @ path)),
           (''description'', d), (''har'', har)] \<in> set entries"
    by auto
  moreover have "getProp h (JObj [(''method'', JStr (upperString h method)),
           (''url'', JStr (base @ path)), (''description'', d), (''har'', har)]) ''har''
           = Inr har"
    by simp
  ultimately show ?thesis using har by blast
qed

text \<open>
  C9. A document whose \<^verbatim>\<open>servers\<close> entry is absent or an empty list has no base URL:
  \<^verbatim>\<open>getBaseUrl\<close> yields \<^verbatim>\<open>undefined\<close>, every request object \<^verbatim>\<open>createHar\<close> returns has
  the url "undefined" followed by the raw path, and so has every entry of a batch that
  \<^verbatim>\<open>swaggerToHarList\<close> returns, together with the request object it holds.
\<close>

theorem no_servers_undefined_url:
  assumes s: "getProp h swagger ''servers'' = Inr JUndef
              \<or> getProp h swagger ''servers'' = Inr (JArr [])"
  shows "getBaseUrl h swagger = Inr JUndef
       \<and> (\<forall>path method q k har. createHar h swagger path method q k = Inr har
             \<longrightarrow> getProp h har ''url'' = Inr (JStr (''undefined'' @ path)))
       \<and> (\<forall>entries. swaggerToHarList h swagger = JArr entries
             \<longrightarrow> (\<forall>e \<in> set entries. \<exists>paths path har.
                    getProp h swagger ''paths'' = Inr paths \<and> path \<in> set (forInKeys paths) \<and>
                    getProp h e ''url'' = Inr (JStr (''undefined'' @ path)) \<and>
                    getProp h e ''har'' = Inr har \<and>
                    getProp h har ''url'' = Inr (JStr (''undefined'' @ path))))"
proof (intro conjI allI impI ballI)
  show b: "getBaseUrl h swagger = Inr JUndef"
    by (rule getBaseUrl_no_servers [OF s])
  {
    fix path meth q k har
    assume "createHar h swagger path meth q k = Inr har"
    from createHar_url [OF this] b
    show "getProp h har ''url'' = Inr (JStr (''undefined'' @ path))" by auto
  }
  note har_url = this
  fix entries e
  assume r: "swaggerToHarList h swagger = JArr entries" and e: "e \<in> set entries"
  from r have l: "harList h swagger = Inr entries"
    by (auto simp: swaggerToHarList_def split: sum.splits)
  from harList_entry [OF l e] b obtain paths path meth har d where
    p: "getProp h swagger ''paths'' = Inr paths" "path \<in> set (forInKeys paths)"
    and c: "createHar h swagger path meth JUndef JUndef = Inr har"
    and shape: "e = JObj [(''method'', JStr (upperString h meth)),
                     (''url'', JStr (''undefined'' @ path)),
                     (''description'', d), (''har'', har)]"
    by auto
  from shape have "getProp h e ''url'' = Inr (JStr (''undefined'' @ path))"
    and "getProp h e ''har'' = Inr har"
    by simp_all
  with p har_url [OF c]
  show "\<exists>paths path har.
          getProp h swagger ''paths'' = Inr paths \<and> path \<in> set (forInKeys paths) \<and>
          getProp h e ''url'' = Inr (JStr (''undefined'' @ path)) \<and>
          getProp h e ''har'' = Inr har \<and>
          getProp h har ''url'' = Inr (JStr (''undefined'' @ path))"
    by blast
qed

theorem no_servers_undefined_url_witness:
  "getProp plainHost limitDoc ''servers'' = Inr JUndef
   \<and> getBaseUrl plainHost limitDoc = Inr JUndef
   \<and> (\<exists>har. createHar plainHost limitDoc ''/pets'' ''get'' JUndef JUndef = Inr har \<and>
          getProp plainHost har ''url'' = Inr (JStr ''undefined/pets''))
   \<and> (\<exists>e har. swaggerToHarList plainHost limitDoc = JArr [e] \<and>
          getProp plainHost e ''url'' = Inr (JStr ''undefined/pets'') \<and>
          getProp plainHost e ''har'' = Inr har \<and>
          getProp plainHost har ''url'' = Inr (JStr ''undefined/pets''))"
proof -
  have s: "getProp plainHost limitDoc ''servers'' = Inr JUndef" by code_simp
  note main = no_servers_undefined_url [of plainHost limitDoc, OF disjI1 [OF s]]
  from main have b: "getBaseUrl plainHost limitDoc = Inr JUndef" by (rule conjunct1)
  have "\<not> isl (createHar plainHost limitDoc ''/pets'' ''get'' JUndef JUndef)" by code_simp
  then obtain har where har: "createHar plainHost limitDoc ''/pets'' ''get'' JUndef JUndef = Inr har"
    by (cases "createHar plainHost limitDoc ''/pets'' ''get'' JUndef JUndef") auto
  with main have u: "getProp plainHost har ''url'' = Inr (JStr (''undefined'' @ ''/pets''))"
    by blast
  have "case swaggerToHarList plainHost limitDoc of JArr [e] \<Rightarrow> True | _ \<Rightarrow> False"
    by code_simp
  then obtain e where e: "swaggerToHarList plainHost limitDoc = JArr [e]"
    by (auto split: json.splits list.splits)
  have keys: "getProp plainHost limitDoc ''paths''
      = Inr (JObj [(''/pets'', JObj [(''get'', JObj [(''parameters'', JArr [limitParam])])])])"
    by code_simp
  from main e obtain paths path har' where
    p: "getProp plainHost limitDoc ''paths'' = Inr paths" "path \<in> set (forInKeys paths)"
    and eu: "getProp plainHost e ''url'' = Inr (JStr (''undefined'' @ path))"
    and eh: "getProp plainHost e ''har'' = Inr har'"
    and hu: "getProp plainHost har' ''url'' = Inr (JStr (''undefined'' @ path))"
    by fastforce
  from p keys have "path = ''/pets''" by auto
  with eu eh hu e have
    "\<exists>e har. swaggerToHarList plainHost limitDoc = JArr [e] \<and>
          getProp plainHost e ''url'' = Inr (JStr ''undefined/pets'') \<and>
          getProp plainHost e ''har'' = Inr har \<and>
          getProp plainHost har ''url'' = Inr (JStr ''undefined/pets'')"
    by auto
  moreover from har u have
    "\<exists>har. createHar plainHost limitDoc ''/pets'' ''get'' JUndef JUndef = Inr har \<and>
          getProp plainHost har ''url'' = Inr (JStr ''undefined/pets'')"
    by auto
  ultimately show ?thesis using s b by (intro conjI)
qed

text \<open>
  C6. The batch call catches whatever its body throws. When the body (\<open>harList\<close>, the
  \<^verbatim>\<open>try\<close> block) throws, \<^verbatim>\<open>swaggerToHarList\<close> returns \<^verbatim>\<open>null\<close>; in particular it
  returns \<^verbatim>\<open>null\<close> as soon as the request object of one declared path and method cannot
  be built. Otherwise it returns a list in which every declared path and method has its
  entry: the result is never a partial list, and no error leaves the call.
\<close>

theorem batch_all_or_nothing:
  "(\<forall>e. harList h swagger = Inl e \<longrightarrow> swaggerToHarList h swagger = JNull)
 \<and> (\<forall>paths path pathItem method e.
       getProp h swagger ''paths'' = Inr paths \<and> path \<in> set (forInKeys paths) \<and>
       getProp h paths path = Inr pathItem \<and> method \<in> set (forInKeys pathItem) \<and>
       createHar h swagger path method JUndef JUndef = Inl e
       \<longrightarrow> swaggerToHarList h swagger = JNull)
 \<and> (swaggerToHarList h swagger = JNull
      \<or> (\<exists>entries. swaggerToHarList h swagger = JArr entries \<and>
            (\<forall>paths path pathItem method.
               getProp h swagger ''paths'' = Inr paths \<and> path \<in> set (forInKeys paths) \<and>
               getProp h paths path = Inr pathItem \<and> method \<in> set (forInKeys pathItem)
               \<longrightarrow> (\<exists>har. createHar h swagger path method JUndef JUndef = Inr har \<and>
                      (\<exists>e \<in> set entries. getProp h e ''har'' = Inr har)))))"
proof (intro conjI allI impI)
  fix e
  assume "harList h swagger = Inl e"
  then show "swaggerToHarList h swagger = JNull" by (simp add: swaggerToHarList_def)
next
  fix paths path pathItem meth e
  assume a: "getProp h swagger ''paths'' = Inr paths \<and> path \<in> set (forInKeys paths) \<and>
       getProp h paths path = Inr pathItem \<and> meth \<in> set (forInKeys pathItem) \<and>
       createHar h swagger path meth JUndef JUndef = Inl e"
  then obtain e' where "harList h swagger = Inl e'"
    using harList_Inl [of h swagger paths path pathItem meth e] by blast
  then show "swaggerToHarList h swagger = JNull" by (simp add: swaggerToHarList_def)
next
  show "swaggerToHarList h swagger = JNull
      \<or> (\<exists>entries. swaggerToHarList h swagger = JArr entries \<and>
            (\<forall>paths path pathItem method.
               getProp h swagger ''paths'' = Inr paths \<and> path \<in> set (forInKeys paths) \<and>
               getProp h paths path = Inr pathItem \<and> method \<in> set (forInKeys pathItem)
               \<longrightarrow> (\<exists>har. createHar h swagger path method JUndef JUndef = Inr har \<and>
                      (\<exists>e \<in> set entries. getProp h e ''har'' = Inr har))))"
  proof (cases "harList h swagger")
    case (Inl e)
    then show ?thesis by (simp add: swaggerToHarList_def)
  next
    case (Inr entries)
    then have r: "swaggerToHarList h swagger = JArr entries"
      by (simp add: swaggerToHarList_def)
    have "\<forall>paths path pathItem method.
               getProp h swagger ''paths'' = Inr paths \<and> path \<in> set (forInKeys paths) \<and>
               getProp h paths path = Inr pathItem \<and> method \<in> set (forInKeys pathItem)
               \<longrightarrow> (\<exists>har. createHar h swagger path method JUndef JUndef = Inr har \<and>
                      (\<exists>e \<in> set entries. getProp h e ''har'' = Inr har))"
      using harList_complete [OF Inr] by blast
    with r show ?thesis by blast
  qed
qed

theorem batch_all_or_nothing_witness:
  "getProp plainHost brokenDoc ''paths'' = Inr (JObj
     [(''/ok'', JObj [(''get'', JObj [])]),
      (''/bad'', JObj [(''get'', JObj [(''parameters'',
          JArr [JObj [(''name'', JStr ''q''), (''in'', JStr ''query'')]])])])])
   \<and> createHar plainHost brokenDoc ''/bad'' ''get'' JUndef JUndef = Inl TypeError
   \<and> \<not> isl (createHar plainHost brokenDoc ''/ok'' ''get'' JUndef JUndef)
   \<and> swaggerToHarList plainHost brokenDoc = JNull"
proof -
  let ?paths = "JObj
     [(''/ok'', JObj [(''get'', JObj [])]),
      (''/bad'', JObj [(''get'', JObj [(''parameters'',
          JArr [JObj [(''name'', JStr ''q''), (''in'', JStr ''query'')]])])])]"
  let ?item = "JObj [(''get'', JObj [(''parameters'',
          JArr [JObj [(''name'', JStr ''q''), (''in'', JStr ''query'')]])])]"
  have p: "getProp plainHost brokenDoc ''paths'' = Inr ?paths" by code_simp
  have k: "''/bad'' \<in> set (forInKeys ?paths)" by code_simp
  have i: "getProp plainHost ?paths ''/bad'' = Inr ?item" by code_simp
  have m: "''get'' \<in> set (forInKeys ?item)" by code_simp
  have c: "createHar plainHost brokenDoc ''/bad'' ''get'' JUndef JUndef = Inl TypeError"
    by code_simp
  have ok: "\<not> isl (createHar plainHost brokenDoc ''/ok'' ''get'' JUndef JUndef)"
    by code_simp
  from batch_all_or_nothing [of plainHost brokenDoc] p k i m c
  have "swaggerToHarList plainHost brokenDoc = JNull" by blast
  with p c ok show ?thesis by (intro conjI)
qed


section \<open>Required headers\<close>

text \<open>A parameter that the operation declares literally as the required header
  "Authorization" gets the two entries, for every runtime.\<close>

lemma headerOf_authorization:
  assumes r: "requiredHeader h param = Inr True"
      and n: "getProp h param ''name'' = Inr (JStr ''Authorization'')"
      and s: "getProp h param ''schema'' = Inr schema"
      and t: "getProp h schema ''type'' = Inr t"
  shows "headerOf h (JStr ''KEY123'') param
           = Inr [JObj [(''name'', JStr ''Authorization''), (''value'', JStr ''Bearer KEY123''),
                        (''type'', t)]]"
    and "requiredHeaderParamOf h (JStr ''KEY123'') param
           = Inr [JObj [(''name'', JStr ''Authorization''), (''value'', JStr ''KEY123''),
                        (''type'', t)]]"
  using assms by (simp_all add: headerOf_def requiredHeaderParamOf_def authHeader_def)

lemma getHeadersArray_Inr:
  assumes "getHeadersArray h swagger path method apiKey = Inr (JArr hs)"
      and "operationOf h swagger path method = Inr pathObj"
      and "getProp h pathObj ''parameters'' = Inr params"
      and "params \<noteq> JUndef"
  shows "\<exists>declared. collectE (\<lambda>k. bindE (getProp h params k) (headerOf h apiKey)) (forInKeys params)
            = Inr declared \<and> set declared \<subseteq> set hs"
  using assms unfolding getHeadersArray_def bindE_eq_Inr by auto

lemma getRequiredHeaderParams_Inr:
  assumes "getRequiredHeaderParams h swagger path method apiKey = Inr (JArr hs)"
      and "operationOf h swagger path method = Inr pathObj"
      and "getProp h pathObj ''parameters'' = Inr params"
      and "params \<noteq> JUndef"
  shows "collectE (\<lambda>k. bindE (getProp h params k) (requiredHeaderParamOf h apiKey)) (forInKeys params)
            = Inr hs"
  using assms unfolding getRequiredHeaderParams_def bindE_eq_Inr by auto

lemma literal_authorization_entries:
  assumes op: "operationOf h swagger path method = Inr pathObj"
      and ps: "getProp h pathObj ''parameters'' = Inr params"
      and k: "k \<in> set (forInKeys params)"
      and p: "getProp h params k = Inr param"
      and r: "requiredHeader h param = Inr True"
      and n: "getProp h param ''name'' = Inr (JStr ''Authorization'')"
      and s: "getProp h param ''schema'' = Inr schema"
      and t: "getProp h schema ''type'' = Inr t"
  shows "(\<forall>hs. getHeadersArray h swagger path method (JStr ''KEY123'') = Inr (JArr hs)
             \<longrightarrow> JObj [(''name'', JStr ''Authorization''), (''value'', JStr ''Bearer KEY123''),
                        (''type'', t)] \<in> set hs)
       \<and> (\<forall>rs. getRequiredHeaderParams h swagger path method (JStr ''KEY123'') = Inr (JArr rs)
             \<longrightarrow> JObj [(''name'', JStr ''Authorization''), (''value'', JStr ''KEY123''),
                        (''type'', t)] \<in> set rs)"
proof (intro conjI allI impI)
  note one = headerOf_authorization [OF r n s t]
  have pne: "params \<noteq> JUndef" using k by auto
  {
    fix hs
    assume "getHeadersArray h swagger path method (JStr ''KEY123'') = Inr (JArr hs)"
    from getHeadersArray_Inr [OF this op ps pne] obtain declared where
      c: "collectE (\<lambda>k. bindE (getProp h params k) (headerOf h (JStr ''KEY123'')))
            (forInKeys params) = Inr declared" and sub: "set declared \<subseteq> set hs"
      by blast
    from collectE_Inr_member [OF c k] p one(1) sub
    show "JObj [(''name'', JStr ''Authorization''), (''value'', JStr ''Bearer KEY123''),
                (''type'', t)] \<in> set hs"
      by auto
  }
  {
    fix rs
    assume "getRequiredHeaderParams h swagger path method (JStr ''KEY123'') = Inr (JArr rs)"
    from getRequiredHeaderParams_Inr [OF this op ps pne]
    have c: "collectE (\<lambda>k. bindE (getProp h params k) (requiredHeaderParamOf h (JStr ''KEY123'')))
               (forInKeys params) = Inr rs" .
    from collectE_Inr_member [OF c k] p one(2)
    show "JObj [(''name'', JStr ''Authorization''), (''value'', JStr ''KEY123''),
                (''type'', t)] \<in> set rs"
      by auto
  }
qed

text \<open>
  C7. The operation of \<open>authRefDoc\<close> declares its one parameter through a reference,
  and the reference designates the required header "Authorization" (\<open>resolveRef\<close>
  finds the descriptor, which \<open>requiredHeader\<close> accepts). Called with the API key
  "KEY123", \<^verbatim>\<open>getHeadersArray\<close> returns the two default headers and no entry with the
  value "Bearer KEY123", and \<^verbatim>\<open>getRequiredHeaderParams\<close> returns an empty list and no
  entry with the value "KEY123": the two loops read \<^verbatim>\<open>in\<close> on the reference object
  itself. For \<open>authDoc\<close>, which declares the same descriptor literally, both entries are
  there.
\<close>

theorem referenced_authorization_dropped:
  "resolveRef plainHost authRefDoc ''#/components/parameters/Auth'' = Inr authParam
   \<and> requiredHeader plainHost authParam = Inr True
   \<and> getProp plainHost authParam ''name'' = Inr (JStr ''Authorization'')
   \<and> getHeadersArray plainHost authRefDoc ''/pets'' ''get'' (JStr ''KEY123'')
       = Inr (JArr [JObj [(''name'', JStr ''accept''), (''value'', JStr ''application/json'')],
                    JObj [(''name'', JStr ''content-type''), (''value'', JStr ''application/json'')]])
   \<and> getRequiredHeaderParams plainHost authRefDoc ''/pets'' ''get'' (JStr ''KEY123'')
       = Inr (JArr [])
   \<and> getHeadersArray plainHost authDoc ''/pets'' ''get'' (JStr ''KEY123'')
       = Inr (JArr [JObj [(''name'', JStr ''accept''), (''value'', JStr ''application/json'')],
                    JObj [(''name'', JStr ''content-type''), (''value'', JStr ''application/json'')],
                    JObj [(''name'', JStr ''Authorization''), (''value'', JStr ''Bearer KEY123''),
                          (''type'', JStr ''string'')]])
   \<and> getRequiredHeaderParams plainHost authDoc ''/pets'' ''get'' (JStr ''KEY123'')
       = Inr (JArr [JObj [(''name'', JStr ''Authorization''), (''value'', JStr ''KEY123''),
                          (''type'', JStr ''string'')]])"
  by code_simp

text \<open>
  C8. The two parameters of \<open>refDoc\<close> are references. \<^verbatim>\<open>getQueryStrings\<close> resolves
  the reference before it looks at \<^verbatim>\<open>in\<close> and emits the query parameter.
  \<^verbatim>\<open>getHeadersArray\<close> and \<^verbatim>\<open>getRequiredHeaderParams\<close> have no such step: they read
  \<^verbatim>\<open>in\<close> on the reference object itself, find nothing, and drop the required header
  that the reference designates (the entry \<open>headerOf\<close> pushes for the resolved
  parameter never appears).
\<close>

theorem referenced_header_not_resolved:
  "getQueryStrings plainHost refDoc ''/pets'' ''get'' JUndef
     = Inr (JArr [JObj [(''name'', JStr ''page''), (''value'', JStr ''10'')]])
   \<and> resolveRef plainHost refDoc ''#/components/parameters/Token'' = Inr tokenParam
   \<and> headerOf plainHost JUndef tokenParam
     = Inr [JObj [(''name'', JStr ''X-Token''), (''value'', JStr ''SOME_X-TOKEN_VALUE''),
                  (''type'', JStr ''string'')]]
   \<and> getHeadersArray plainHost refDoc ''/pets'' ''get'' JUndef
     = Inr (JArr [JObj [(''name'', JStr ''accept''), (''value'', JStr ''application/json'')],
                  JObj [(''name'', JStr ''content-type''), (''value'', JStr ''application/json'')]])
   \<and> getRequiredHeaderParams plainHost refDoc ''/pets'' ''get'' JUndef = Inr (JArr [])"
  by code_simp


section \<open>The payload\<close>

lemma petDoc_operation:
  "operationOf h petDoc ''/pets'' ''post''
     = Inr (JObj [(''requestBody'',
         JObj [(''content'', JObj [(''application/json'', JObj [(''schema'', petBodySchema)])])])])"
  by (simp add: operationOf_def petDoc_def)

text \<open>
  C1. The request body of \<open>petDoc\<close> has a schema with a property that is a local
  reference. \<^verbatim>\<open>getPayload\<close> hands the external instantiator that schema as the
  document holds it, with the reference still in place: \<^verbatim>\<open>getResolvedSchema\<close> is not
  called (no function of the file calls it).
\<close>

theorem payload_schema_unresolved:
  "getPayload h petDoc ''/pets'' ''post''
     = bindE (instantiate h petBodySchema) (\<lambda>example.
         Inr (JObj [(''mimeType'', JStr ''application/json''),
                    (''text'', jsonStringify h example)]))
   \<and> lookupPath h petBodySchema [''properties'', ''pet'', ''$ref''] = Inr (JStr ''#/definitions/Pet'')"
  by (simp add: getPayload_def petDoc_operation getFirstContentTypeFromContent_def objectKeys_def
       petBodySchema_def)


section \<open>Precedence by location\<close>












section \<open>Resolution in a store\<close>

text \<open>The depth is only a bound: a call that returns or throws within a depth does the
  same within every greater depth.\<close>

lemma propertiesLoop_deeper:
  assumes IH: "\<And>st v r. getResolvedSchema h n sw st v = Some r \<Longrightarrow>
                 getResolvedSchema h (Suc n) sw st v = Some r"
  shows "propertiesLoop h n sw st schema ks = Some r \<Longrightarrow>
         propertiesLoop h (Suc n) sw st schema ks = Some r"
proof (induction ks arbitrary: st)
  case Nil
  then show ?case by simp
next
  case (Cons k ks)
  show ?case
  proof (cases "resolveProperty h sw st schema k")
    case (Inl e)
    with Cons.prems have "r = Inl e" by simp
    with Inl show ?thesis by simp
  next
    case r1: (Inr st1)
    show ?thesis
    proof (cases "propertySlot h st1 schema k")
      case (Inl e)
      with Cons.prems r1 have "r = Inl e" by simp
      with r1 Inl show ?thesis by simp
    next
      case c: (Inr c)
      show ?thesis
      proof (cases "getResolvedSchema h n sw st1 c")
        case None
        with Cons.prems r1 c show ?thesis by simp
      next
        case (Some res)
        from IH [OF Some] have deeper: "getResolvedSchema h (Suc n) sw st1 c = Some res" .
        show ?thesis
        proof (cases res)
          case (Inl e)
          with Cons.prems r1 c Some have "r = Inl e" by simp
          with r1 c deeper Inl show ?thesis by (simp del: getResolvedSchema.simps)
        next
          case (Inr st2)
          with Cons.prems r1 c Some have "propertiesLoop h n sw st2 schema ks = Some r" by simp
          from Cons.IH [OF this] r1 c deeper Inr show ?thesis
            by (simp del: getResolvedSchema.simps)
        qed
      qed
    qed
  qed
qed

lemma itemsLoop_deeper:
  assumes IH: "\<And>st v r. getResolvedSchema h n sw st v = Some r \<Longrightarrow>
                 getResolvedSchema h (Suc n) sw st v = Some r"
  shows "itemsLoop h n sw st schema ks = Some r \<Longrightarrow>
         itemsLoop h (Suc n) sw st schema ks = Some r"
proof (induction ks arbitrary: st)
  case Nil
  then show ?case by simp
next
  case (Cons k ks)
  show ?case
  proof (cases "resolveItems h sw st schema k")
    case (Inl e)
    with Cons.prems have "r = Inl e" by simp
    with Inl show ?thesis by simp
  next
    case r1: (Inr st1)
    show ?thesis
    proof (cases "hgetProp h st1 schema ''items''")
      case (Inl e)
      with Cons.prems r1 have "r = Inl e" by simp
      with r1 Inl show ?thesis by simp
    next
      case c: (Inr c)
      show ?thesis
      proof (cases "getResolvedSchema h n sw st1 c")
        case None
        with Cons.prems r1 c show ?thesis by simp
      next
        case (Some res)
        from IH [OF Some] have deeper: "getResolvedSchema h (Suc n) sw st1 c = Some res" .
        show ?thesis
        proof (cases res)
          case (Inl e)
          with Cons.prems r1 c Some have "r = Inl e" by simp
          with r1 c deeper Inl show ?thesis by (simp del: getResolvedSchema.simps)
        next
          case (Inr st2)
          with Cons.prems r1 c Some have "itemsLoop h n sw st2 schema ks = Some r" by simp
          from Cons.IH [OF this] r1 c deeper Inr show ?thesis
            by (simp del: getResolvedSchema.simps)
        qed
      qed
    qed
  qed
qed

lemma getResolvedSchema_deeper:
  "getResolvedSchema h n sw st v = Some r \<Longrightarrow> getResolvedSchema h (Suc n) sw st v = Some r"
proof (induction n arbitrary: st v r)
  case 0
  then show ?case by simp
next
  case (Suc n)
  have pl: "propertiesLoop h (Suc n) sw st v ks = Some r"
    if "propertiesLoop h n sw st v ks = Some r" for ks
    using that
  proof (rule propertiesLoop_deeper [rotated])
    fix st v r assume "getResolvedSchema h n sw st v = Some r"
    then show "getResolvedSchema h (Suc n) sw st v = Some r" by (rule Suc.IH)
  qed
  have il: "itemsLoop h (Suc n) sw st v ks = Some r"
    if "itemsLoop h n sw st v ks = Some r" for ks
    using that
  proof (rule itemsLoop_deeper [rotated])
    fix st v r assume "getResolvedSchema h n sw st v = Some r"
    then show "getResolvedSchema h (Suc n) sw st v = Some r" by (rule Suc.IH)
  qed
  from Suc.prems show ?case
    by (simp only: getResolvedSchema.simps(2))
       (auto split: sum.splits if_splits intro: pl il)
qed

lemma getResolvedSchema_depth_mono:
  "getResolvedSchema h n sw st v = Some r \<Longrightarrow> n \<le> m \<Longrightarrow> getResolvedSchema h m sw st v = Some r"
proof (induction m)
  case 0
  then show ?case by simp
next
  case (Suc m)
  show ?case
  proof (cases "n = Suc m")
    case True
    with Suc.prems show ?thesis by simp
  next
    case False
    with Suc.prems have "n \<le> m" by simp
    from getResolvedSchema_deeper [OF Suc.IH [OF Suc.prems(1) this]] show ?thesis .
  qed
qed

text \<open>In the runtime of the examples an object inherits nothing under the keys the
  resolver reads.\<close>

lemma plainHost_inherits_nothing:
  "inheritedVal plainHost OfObject ''type'' = Inr HUndef"
  "inheritedVal plainHost OfObject ''properties'' = Inr HUndef"
  "inheritedVal plainHost OfObject ''items'' = Inr HUndef"
  "inheritedVal plainHost OfObject ''$ref'' = Inr HUndef"
  by code_simp+

text \<open>
  C5. Two documents whose definitions contain \<^verbatim>\<open>Pet\<close>, with the object-typed schema
  (address 9) whose property \<^verbatim>\<open>pet\<close> carries the reference "#/definitions/Pet", in
  the runtime of the examples. In both the call returns, and the property has become
  the very node of \<^verbatim>\<open>Pet\<close> (address 2), yet a node below it still carries a local
  reference as a property.

  In the first, \<^verbatim>\<open>Pet\<close> is an object whose property \<^verbatim>\<open>owner\<close> refers to the
  definition \<^verbatim>\<open>Owner\<close>, and \<^verbatim>\<open>Owner\<close> is itself a reference: the property \<^verbatim>\<open>owner\<close>
  is replaced by that definition (address 5), which has no type and keeps
  "#/definitions/Person".

  In the second, \<^verbatim>\<open>Pet\<close> declares properties but no type: the resolver does not look
  below it, nothing else changes in the store, and the property \<^verbatim>\<open>owner\<close> of \<^verbatim>\<open>Pet\<close>
  (address 4) keeps "#/definitions/Owner".
\<close>

theorem property_references_left_unresolved:
  "getResolvedSchema plainHost 3 (HRef 0) aliasPetStore (HRef 9)
     = Some (Inr (aliasPetStore(10 := [(''pet'', HRef 2)],
                                3 := [(''owner'', HRef 5), (''name'', HRef 7)])))
   \<and> fieldOf (aliasPetStore 0) ''definitions'' = HRef 1
   \<and> fieldOf (aliasPetStore 1) ''Pet'' = HRef 2
   \<and> fieldOf (aliasPetStore 2) ''type'' = HStr ''object''
   \<and> fieldOf (aliasPetStore 2) ''properties'' = HRef 3
   \<and> fieldOf (aliasPetStore 5) ''$ref'' = HStr ''#/definitions/Person''
   \<and> carriesLocalRef (aliasPetStore(10 := [(''pet'', HRef 2)],
                                     3 := [(''owner'', HRef 5), (''name'', HRef 7)])) 5
   \<and> getResolvedSchema plainHost 2 (HRef 0) untypedPetStore (HRef 9)
     = Some (Inr (untypedPetStore(10 := [(''pet'', HRef 2)])))
   \<and> fieldOf (untypedPetStore 0) ''definitions'' = HRef 1
   \<and> fieldOf (untypedPetStore 1) ''Pet'' = HRef 2
   \<and> fieldOf (untypedPetStore 2) ''properties'' = HRef 3
   \<and> fieldOf (untypedPetStore 3) ''owner'' = HRef 4
   \<and> fieldOf (untypedPetStore 4) ''$ref'' = HStr ''#/definitions/Owner''
   \<and> carriesLocalRef (untypedPetStore(10 := [(''pet'', HRef 2)])) 4"
  by (simp add: eval_nat_numeral untypedPetStore_def aliasPetStore_def
        petStore_def fieldOf_def carriesLocalRef_def plainHost_inherits_nothing
        resolveProperty_def propertySlot_def definitionOf_def lastSegment_def isHttp_def)


end
